theory Spec2Isabelle
  imports Main
begin

section \<open>JavaScript strings\<close>

text \<open>
  A JavaScript string is a sequence of UTF-16 code units. The regular expressions of
  \<^verbatim>\<open>parser.js\<close> carry no \<^verbatim>\<open>u\<close> flag, so they work on code units as well. A code unit
  is modelled as an integer; \<open>js\<close> embeds an ASCII literal.
\<close>

type_synonym jschar = int
type_synonym jsstring = "jschar list"

definition js :: "string \<Rightarrow> jsstring" where
  "js s = map of_char s"

section \<open>Text Normalizer: \<^verbatim>\<open>cleanText\<close>\<close>

text \<open>
  \<^verbatim>\<open>cleanText(text)\<close> (parser.js, lines 31-45) is a chain of five \<^verbatim>\<open>replace\<close> calls and a
  \<^verbatim>\<open>trim\<close>. Each of the first four is a global replacement of one character class, so it
  is a \<open>filter\<close> or a \<open>map\<close> over the code units:
  \<^item> the class of U+200E, U+200F, U+200B to U+200D, U+2060 to U+206F, U+2028, U+2029 and U+FEFF: removed,
  \<^item> the class of U+00A0, U+202F, U+2007, U+2008, U+2009 and U+200A: replaced by a space,
  \<^item> the class of U+202A to U+202E and U+2066 to U+2069: removed,
  \<^item> \<^verbatim>\<open>/\r/g\<close> removed.
  The fifth, \<^verbatim>\<open>/  +/g\<close> to one space, replaces every maximal run of two or more spaces by one
  space. \<^verbatim>\<open>String.prototype.trim\<close> drops the ECMAScript white space and line terminators at
  both ends.
\<close>

definition invisible_mark :: "jschar \<Rightarrow> bool" where
  "invisible_mark c \<longleftrightarrow>
     c = 0x200e \<or> c = 0x200f \<or> (0x200b \<le> c \<and> c \<le> 0x200d)
     \<or> (0x2060 \<le> c \<and> c \<le> 0x206f) \<or> c = 0x2028 \<or> c = 0x2029 \<or> c = 0xfeff"

definition strip_invisible :: "jsstring \<Rightarrow> jsstring" where
  "strip_invisible t = filter (\<lambda>c. \<not> invisible_mark c) t"

definition special_space :: "jschar \<Rightarrow> bool" where
  "special_space c \<longleftrightarrow>
     c = 0x00a0 \<or> c = 0x202f \<or> c = 0x2007 \<or> c = 0x2008 \<or> c = 0x2009 \<or> c = 0x200a"

definition normalize_spaces :: "jsstring \<Rightarrow> jsstring" where
  "normalize_spaces t = map (\<lambda>c. if special_space c then 0x20 else c) t"

definition bidi_control :: "jschar \<Rightarrow> bool" where
  "bidi_control c \<longleftrightarrow> (0x202a \<le> c \<and> c \<le> 0x202e) \<or> (0x2066 \<le> c \<and> c \<le> 0x2069)"

definition strip_bidi :: "jsstring \<Rightarrow> jsstring" where
  "strip_bidi t = filter (\<lambda>c. \<not> bidi_control c) t"

definition strip_cr :: "jsstring \<Rightarrow> jsstring" where
  "strip_cr t = filter (\<lambda>c. c \<noteq> 0x0d) t"

fun collapse_spaces :: "jsstring \<Rightarrow> jsstring" where
  "collapse_spaces (a # b # cs) =
     (if a = 0x20 \<and> b = 0x20 then collapse_spaces (b # cs) else a # collapse_spaces (b # cs))"
| "collapse_spaces cs = cs"

definition is_white_space :: "jschar \<Rightarrow> bool" where
  "is_white_space c \<longleftrightarrow>
     (0x09 \<le> c \<and> c \<le> 0x0d) \<or> c = 0x20 \<or> c = 0xa0 \<or> c = 0x1680
     \<or> (0x2000 \<le> c \<and> c \<le> 0x200a) \<or> c = 0x2028 \<or> c = 0x2029 \<or> c = 0x202f
     \<or> c = 0x205f \<or> c = 0x3000 \<or> c = 0xfeff"

definition trim :: "jsstring \<Rightarrow> jsstring" where
  "trim t = rev (dropWhile is_white_space (rev (dropWhile is_white_space t)))"

text \<open>
  The guard \<^verbatim>\<open>if (!text) return ''\<close> is taken by the empty string and by \<^verbatim>\<open>undefined\<close>;
  \<open>cleanText_js\<close> is the function on the argument as JavaScript passes it, \<open>None\<close> being
  \<^verbatim>\<open>undefined\<close>.
\<close>

definition cleanText :: "jsstring \<Rightarrow> jsstring" where
  "cleanText text =
     (if text = [] then []
      else trim (collapse_spaces (strip_cr (strip_bidi (normalize_spaces (strip_invisible text))))))"

definition cleanText_js :: "jsstring option \<Rightarrow> jsstring" where
  "cleanText_js arg = (case arg of None \<Rightarrow> [] | Some text \<Rightarrow> cleanText text)"

section \<open>Auxiliary predicates\<close>

text \<open>What a normalized line looks like: no two adjacent spaces, only plain code units.\<close>

fun no_double_space :: "jsstring \<Rightarrow> bool" where
  "no_double_space (a # b # cs) = (\<not> (a = 0x20 \<and> b = 0x20) \<and> no_double_space (b # cs))"
| "no_double_space cs = True"

definition plain_char :: "jschar \<Rightarrow> bool" where
  "plain_char c \<longleftrightarrow>
     \<not> invisible_mark c \<and> \<not> special_space c \<and> \<not> bidi_control c \<and> c \<noteq> 0x0d"

section \<open>Regular expressions\<close>

text \<open>
  The patterns of \<^verbatim>\<open>parser.js\<close> use literals, character classes, groups, alternation and
  greedy quantifiers, all of them backtracking constructs of ECMAScript. A pattern is a
  term of \<open>re\<close>; \<open>matches r (s, c)\<close> lists, in the order in which the backtracking matcher of
  ECMAScript tries them, the ways in which \<open>r\<close> matches a prefix of \<open>s\<close>: each entry is the rest
  of the input after the match and the capture groups, the latest binding first. The head
  of the list is the match JavaScript reports.

  A quantifier \<open>Rep m n r\<close> is \<^verbatim>\<open>r{m,n}\<close> (\<open>None\<close> for no upper bound). An iteration that consumes
  nothing is not taken; no quantified sub-pattern of \<^verbatim>\<open>parser.js\<close> can match the empty string,
  so this agrees with ECMAScript on every pattern used here.
\<close>

datatype cls = In "(jschar \<times> jschar) list" | NotIn "(jschar \<times> jschar) list"

fun in_ranges :: "jschar \<Rightarrow> (jschar \<times> jschar) list \<Rightarrow> bool" where
  "in_ranges c [] = False"
| "in_ranges c ((lo, hi) # rs) = ((lo \<le> c \<and> c \<le> hi) \<or> in_ranges c rs)"

fun cls_mem :: "cls \<Rightarrow> jschar \<Rightarrow> bool" where
  "cls_mem (In rs) c = in_ranges c rs"
| "cls_mem (NotIn rs) c = (\<not> in_ranges c rs)"

datatype re = Eps | Cls cls | Cat re re | Alt re re | Rep nat "nat option" re | Grp nat re

type_synonym caps = "(nat \<times> jsstring) list"

fun re_size :: "re \<Rightarrow> nat" where
  "re_size Eps = 0"
| "re_size (Cls k) = 0"
| "re_size (Cat a b) = Suc (re_size a + re_size b)"
| "re_size (Alt a b) = Suc (re_size a + re_size b)"
| "re_size (Rep m n r) = Suc (re_size r)"
| "re_size (Grp i r) = Suc (re_size r)"

function matches :: "re \<Rightarrow> jsstring \<times> caps \<Rightarrow> (jsstring \<times> caps) list" where
  "matches Eps st = [st]"
| "matches (Cls k) (s, c) =
     (case s of [] \<Rightarrow> [] | x # xs \<Rightarrow> if cls_mem k x then [(xs, c)] else [])"
| "matches (Cat a b) st = concat (map (matches b) (matches a st))"
| "matches (Alt a b) st = matches a st @ matches b st"
| "matches (Grp i r) (s, c) =
     map (\<lambda>(s', c'). (s', (i, take (length s - length s') s) # c')) (matches r (s, c))"
| "matches (Rep m n r) (s, c) =
     (if n = Some 0 then [(s, c)]
      else concat (map (\<lambda>st'. matches (Rep (m - 1) (map_option (\<lambda>k. k - 1) n) r) st')
                       (filter (\<lambda>st'. length (fst st') < length s) (matches r (s, c))))
           @ (if m = 0 then [(s, c)] else []))"
  by pat_completeness auto
termination
  by (relation "measures [\<lambda>(r, st). re_size r, \<lambda>(r, st). length (fst st)]") auto

text \<open>
  The equation of the quantifier unfolds itself; it is applied by hand in the proofs.
\<close>

declare matches.simps(6) [simp del]

text \<open>
  \<open>match_here\<close> is a match attempt at the start of the input, as for a pattern that begins with
  \<^verbatim>\<open>^\<close> (no pattern of \<^verbatim>\<open>parser.js\<close> has the \<^verbatim>\<open>m\<close> flag, and \<^verbatim>\<open>^\<close> only ever stands first).
  \<open>search\<close> is \<^verbatim>\<open>String.prototype.match\<close> for a pattern without \<^verbatim>\<open>g\<close>: the leftmost start
  index at which an attempt succeeds; it returns the text before the match, the text after
  it and the groups. \<open>group c i\<close> is \<^verbatim>\<open>match[i]\<close>, \<open>None\<close> being \<^verbatim>\<open>undefined\<close>.
\<close>

definition match_here :: "re \<Rightarrow> jsstring \<Rightarrow> (jsstring \<times> caps) option" where
  "match_here r s = (case matches r (s, []) of [] \<Rightarrow> None | m # _ \<Rightarrow> Some m)"

fun search :: "re \<Rightarrow> jsstring \<Rightarrow> (jsstring \<times> jsstring \<times> caps) option" where
  "search r [] = map_option (\<lambda>(rest, c). ([], rest, c)) (match_here r [])"
| "search r (x # xs) =
     (case match_here r (x # xs) of
        Some (rest, c) \<Rightarrow> Some ([], rest, c)
      | None \<Rightarrow> map_option (\<lambda>(pre, rest, c). (x # pre, rest, c)) (search r xs))"

definition group :: "caps \<Rightarrow> nat \<Rightarrow> jsstring option" where
  "group c i = map_of c i"

text \<open>
  \<open>group_str m i\<close> reads a group that takes part in every match of its pattern, so that it
  is never \<^verbatim>\<open>undefined\<close> where the code reads it: \<open>binds r i\<close> holds when every way through
  \<open>r\<close> goes through group \<open>i\<close>.
\<close>

definition group_str :: "caps \<Rightarrow> nat \<Rightarrow> jsstring" where
  "group_str m i = (case group m i of None \<Rightarrow> [] | Some g \<Rightarrow> g)"

fun binds :: "re \<Rightarrow> nat \<Rightarrow> bool" where
  "binds Eps i = False"
| "binds (Cls k) i = False"
| "binds (Cat a b) i = (binds a i \<or> binds b i)"
| "binds (Alt a b) i = (binds a i \<and> binds b i)"
| "binds (Rep m n r) i = (0 < m \<and> n \<noteq> Some 0 \<and> binds r i)"
| "binds (Grp j r) i = (i = j \<or> binds r i)"

definition test_here :: "re \<Rightarrow> jsstring \<Rightarrow> bool" where
  "test_here r s = (match_here r s \<noteq> None)"

definition test :: "re \<Rightarrow> jsstring \<Rightarrow> bool" where
  "test r s = (search r s \<noteq> None)"

text \<open>
  \<^verbatim>\<open>s.replace(r, '')\<close>: with the \<^verbatim>\<open>g\<close> flag every match, left to right and without overlap, is
  removed (\<open>remove_all\<close>); without it only the first one (\<open>remove_first\<close>).
\<close>

function remove_all :: "re \<Rightarrow> jsstring \<Rightarrow> jsstring" where
  "remove_all r s =
     (case match_here r s of
        Some (rest, c) \<Rightarrow>
          if length rest < length s then remove_all r rest
          else (case s of [] \<Rightarrow> [] | x # xs \<Rightarrow> x # remove_all r xs)
      | None \<Rightarrow> (case s of [] \<Rightarrow> [] | x # xs \<Rightarrow> x # remove_all r xs))"
  by pat_completeness auto
termination
  by (relation "measure (\<lambda>(r, s). length s)") auto

definition remove_first :: "re \<Rightarrow> jsstring \<Rightarrow> jsstring" where
  "remove_first r s = (case search r s of None \<Rightarrow> s | Some (pre, rest, c) \<Rightarrow> pre @ rest)"

subsection \<open>Pattern syntax\<close>

definition rch :: "char \<Rightarrow> re" where
  "rch c = Cls (In [(of_char c, of_char c)])"

definition digit :: re where
  "digit = Cls (In [(0x30, 0x39)])"

definition word_char :: re where
  "word_char = Cls (In [(0x41, 0x5a), (0x61, 0x7a), (0x30, 0x39), (0x5f, 0x5f)])"

definition white :: re where
  "white = Cls (In [(0x09, 0x0d), (0x20, 0x20), (0xa0, 0xa0), (0x1680, 0x1680), (0x2000, 0x200a),
     (0x2028, 0x2029), (0x202f, 0x202f), (0x205f, 0x205f), (0x3000, 0x3000), (0xfeff, 0xfeff)])"

definition any_char :: re where
  "any_char = Cls (NotIn [(0x0a, 0x0a), (0x0d, 0x0d), (0x2028, 0x2029)])"

definition not_char :: "jschar \<Rightarrow> re" where
  "not_char c = Cls (NotIn [(c, c)])"

definition rstar :: "re \<Rightarrow> re" where
  "rstar r = Rep 0 None r"

definition rplus :: "re \<Rightarrow> re" where
  "rplus r = Rep 1 None r"

definition ropt :: "re \<Rightarrow> re" where
  "ropt r = Rep 0 (Some 1) r"

fun rseq :: "re list \<Rightarrow> re" where
  "rseq [] = Eps"
| "rseq [r] = r"
| "rseq (r # rs) = Cat r (rseq rs)"

fun ralt :: "re list \<Rightarrow> re" where
  "ralt [] = Cls (In [])"
| "ralt [r] = r"
| "ralt (r # rs) = Alt r (ralt rs)"

definition rlit :: "string \<Rightarrow> re" where
  "rlit s = rseq (map rch s)"

text \<open>
  With the \<^verbatim>\<open>i\<close> flag and no \<^verbatim>\<open>u\<close> flag a code unit is compared after \<^verbatim>\<open>toUpperCase\<close>, except that
  a code unit of 128 or more is never folded to an ASCII one: an ASCII letter of the
  pattern matches exactly its two cases, every other code unit only itself.
\<close>

definition case_variants :: "jschar \<Rightarrow> (jschar \<times> jschar) list" where
  "case_variants c =
     (if 0x61 \<le> c \<and> c \<le> 0x7a then [(c, c), (c - 0x20, c - 0x20)]
      else if 0x41 \<le> c \<and> c \<le> 0x5a then [(c, c), (c + 0x20, c + 0x20)]
      else [(c, c)])"

definition rlit_i :: "string \<Rightarrow> re" where
  "rlit_i s = rseq (map (\<lambda>c. Cls (In (case_variants (of_char c)))) s)"

section \<open>JavaScript numbers and built-in string functions\<close>

text \<open>
  The numbers of the parser are integers or \<^verbatim>\<open>NaN\<close>: a number is an \<open>int option\<close>, \<open>None\<close>
  being \<^verbatim>\<open>NaN\<close>. (A JavaScript number is a double; the model is exact below \<open>2^53\<close>.) A
  comparison with \<^verbatim>\<open>NaN\<close> is false.
\<close>

type_synonym jsnum = "int option"

definition num_lt :: "jsnum \<Rightarrow> int \<Rightarrow> bool" where
  "num_lt x k = (case x of None \<Rightarrow> False | Some v \<Rightarrow> v < k)"

definition num_gt :: "jsnum \<Rightarrow> int \<Rightarrow> bool" where
  "num_gt x k = (case x of None \<Rightarrow> False | Some v \<Rightarrow> k < v)"

definition num_add :: "jsnum \<Rightarrow> int \<Rightarrow> jsnum" where
  "num_add x k = map_option (\<lambda>v. v + k) x"

text \<open>
  \<^verbatim>\<open>parseInt(s, 10)\<close>: leading white space is skipped, then an optional sign, then the longest
  run of decimal digits; without a digit the result is \<^verbatim>\<open>NaN\<close>.
\<close>

definition digits_value :: "jsstring \<Rightarrow> int" where
  "digits_value ds = foldl (\<lambda>acc d. 10 * acc + (d - 0x30)) 0 ds"

definition parseInt :: "jsstring \<Rightarrow> jsnum" where
  "parseInt s =
     (let t = dropWhile is_white_space s;
          neg = (case t of [] \<Rightarrow> False | c # r \<Rightarrow> c = 0x2d);
          u = (case t of [] \<Rightarrow> [] | c # r \<Rightarrow> if c = 0x2d \<or> c = 0x2b then r else t);
          ds = takeWhile (\<lambda>c. 0x30 \<le> c \<and> c \<le> 0x39) u
      in if ds = [] then None
         else Some (if neg then - digits_value ds else digits_value ds))"

text \<open>\<^verbatim>\<open>parseInt\<close> of a capture group: \<^verbatim>\<open>undefined\<close> gives \<^verbatim>\<open>NaN\<close>.\<close>

definition parseInt_arg :: "jsstring option \<Rightarrow> jsnum" where
  "parseInt_arg g = (case g of None \<Rightarrow> None | Some s \<Rightarrow> parseInt s)"

text \<open>
  \<^verbatim>\<open>s.split(sep)\<close> for a separator that is one code unit of a class: the pieces between the
  separators, one more than there are separators (the empty string gives one empty piece).
\<close>

fun split_on :: "(jschar \<Rightarrow> bool) \<Rightarrow> jsstring \<Rightarrow> jsstring list" where
  "split_on P [] = [[]]"
| "split_on P (c # cs) =
     (if P c then [] # split_on P cs
      else (case split_on P cs of [] \<Rightarrow> [[c]] | p # ps \<Rightarrow> (c # p) # ps))"

text \<open>
  \<^verbatim>\<open>toUpperCase\<close> is applied by the parser to one string only, the AM/PM group of a time
  token, which is one of \<^verbatim>\<open>AM\<close>, \<^verbatim>\<open>PM\<close>, \<^verbatim>\<open>am\<close> and \<^verbatim>\<open>pm\<close>; on ASCII letters it is the folding
  below. (\<^verbatim>\<open>toLowerCase\<close>, which the parser applies to arbitrary strings, is a function of the
  host; see the section on the host.)
\<close>

definition toUpperCase :: "jsstring \<Rightarrow> jsstring" where
  "toUpperCase s = map (\<lambda>c. if 0x61 \<le> c \<and> c \<le> 0x7a then c - 0x20 else c) s"

section \<open>Dates\<close>

text \<open>
  The parser builds a \<^verbatim>\<open>Date\<close> in three ways: \<^verbatim>\<open>new Date()\<close>, the current instant;
  \<^verbatim>\<open>new Date(year, monthIndex, day)\<close>; and
  \<^verbatim>\<open>new Date(year, monthIndex, day, hours, minutes, seconds)\<close>. A value of \<open>jsdate\<close> records the
  constructor call with its arguments.
\<close>

datatype jsdate =
    DateNow
  | DateYMD jsnum jsnum jsnum
  | DateYMDHMS jsnum jsnum jsnum jsnum jsnum jsnum

text \<open>
  The time value of a date (milliseconds since the epoch) follows ECMAScript's
  \<^verbatim>\<open>MakeDay\<close>, \<^verbatim>\<open>MakeTime\<close>, \<^verbatim>\<open>MakeDate\<close> and \<^verbatim>\<open>TimeClip\<close>: month indices outside 0..11 and days
  outside the month carry over, a year from 0 to 99 means 1900 + year, and a \<^verbatim>\<open>NaN\<close> argument
  or a value out of range gives \<^verbatim>\<open>NaN\<close> (an invalid date). The host's time zone is taken to be
  UTC. \<open>now\<close> is the reading of the clock.
\<close>

definition day_from_year :: "int \<Rightarrow> int" where
  "day_from_year y =
     365 * (y - 1970) + (y - 1969) div 4 - (y - 1901) div 100 + (y - 1601) div 400"

definition in_leap_year :: "int \<Rightarrow> bool" where
  "in_leap_year y \<longleftrightarrow> y mod 4 = 0 \<and> (y mod 400 = 0 \<or> y mod 100 \<noteq> 0)"

definition days_before_month :: "bool \<Rightarrow> int \<Rightarrow> int" where
  "days_before_month leap m =
     (let d = [0, 31, 59, 90, 120, 151, 181, 212, 243, 273, 304, 334] ! nat m
      in if leap \<and> 2 \<le> m then d + 1 else d)"

definition make_day :: "int \<Rightarrow> int \<Rightarrow> int \<Rightarrow> int" where
  "make_day year month date =
     (let ym = year + month div 12; mn = month mod 12
      in day_from_year ym + days_before_month (in_leap_year ym) mn + date - 1)"

definition make_time :: "int \<Rightarrow> int \<Rightarrow> int \<Rightarrow> int" where
  "make_time h m s = h * 3600000 + m * 60000 + s * 1000"

definition time_clip :: "int \<Rightarrow> jsnum" where
  "time_clip t = (if \<bar>t\<bar> \<le> 8640000000000000 then Some t else None)"

definition date_value :: "jsnum \<Rightarrow> jsnum \<Rightarrow> jsnum \<Rightarrow> jsnum \<Rightarrow> jsnum \<Rightarrow> jsnum \<Rightarrow> jsnum" where
  "date_value year month day hours minutes seconds =
     (case (year, month, day, hours, minutes, seconds) of
        (Some y, Some m, Some d, Some h, Some mi, Some s) \<Rightarrow>
          (let yr = (if 0 \<le> y \<and> y \<le> 99 then 1900 + y else y)
           in time_clip (make_day yr m d * 86400000 + make_time h mi s))
      | _ \<Rightarrow> None)"

fun time_value :: "int \<Rightarrow> jsdate \<Rightarrow> jsnum" where
  "time_value now DateNow = Some now"
| "time_value now (DateYMD y m d) = date_value y m d (Some 0) (Some 0) (Some 0)"
| "time_value now (DateYMDHMS y m d h mi s) = date_value y m d h mi s"

text \<open>\<^verbatim>\<open>a < b\<close> on two dates compares their time values.\<close>

definition date_lt :: "int \<Rightarrow> jsdate \<Rightarrow> jsdate \<Rightarrow> bool" where
  "date_lt now a b =
     (case (time_value now a, time_value now b) of
        (Some x, Some y) \<Rightarrow> x < y
      | _ \<Rightarrow> False)"

text \<open>The year, month index and day handed to the constructor, if any.\<close>

fun ymd_args :: "jsdate \<Rightarrow> (jsnum \<times> jsnum \<times> jsnum) option" where
  "ymd_args DateNow = None"
| "ymd_args (DateYMD y m d) = Some (y, m, d)"
| "ymd_args (DateYMDHMS y m d h mi s) = Some (y, m, d)"

section \<open>DateTime Resolver: \<^verbatim>\<open>parseDateTime\<close>\<close>

datatype export_format = Ios | AndroidBracket | AndroidDash

text \<open>
  \<^verbatim>\<open>/(\d{1,2}):(\d{2})(?::(\d{2}))?\s*(AM|PM|am|pm)?/\<close>
\<close>

definition timeRe :: re where
  "timeRe =
     rseq [Grp 1 (Rep 1 (Some 2) digit), rch CHR '':'', Grp 2 (Rep 2 (Some 2) digit),
           ropt (rseq [rch CHR '':'', Grp 3 (Rep 2 (Some 2) digit)]),
           rstar white,
           ropt (Grp 4 (ralt [rlit ''AM'', rlit ''PM'', rlit ''am'', rlit ''pm'']))]"

definition date_separator :: "jschar \<Rightarrow> bool" where
  "date_separator c \<longleftrightarrow> c = 0x2f \<or> c = 0x2e"

text \<open>
  \<^verbatim>\<open>parseDateTime(dateStr, timeStr, exportFormat)\<close> (parser.js, lines 556-614). Nothing in the
  \<^verbatim>\<open>try\<close> block throws, so the \<^verbatim>\<open>catch\<close> branch is never taken. The third parameter is not
  used by the body.
\<close>

definition parseDateTime :: "jsstring \<Rightarrow> jsstring \<Rightarrow> export_format \<Rightarrow> jsdate" where
  "parseDateTime dateStr0 timeStr0 exportFormat =
     (let dateStr = cleanText dateStr0;
          timeStr = cleanText timeStr0;
          dateParts = map parseInt (split_on date_separator dateStr)
      in case dateParts of
           [first, second, year0] \<Rightarrow>
             (let year = (if num_lt year0 100
                          then num_add year0 (if num_lt year0 50 then 2000 else 1900)
                          else year0);
                  (month, day) =
                    (if num_gt first 12 then (second, first)
                     else if num_gt second 12 then (first, second)
                     else (first, second))
              in case search timeRe timeStr of
                   None \<Rightarrow> DateYMD year (num_add month (- 1)) day
                 | Some (pre, rest, m) \<Rightarrow>
                     (let hours0 = parseInt_arg (group m 1);
                          minutes = parseInt_arg (group m 2);
                          seconds = (case group m 3 of None \<Rightarrow> Some 0 | Some g \<Rightarrow> parseInt g);
                          hours =
                            (case group m 4 of
                               None \<Rightarrow> hours0
                             | Some period \<Rightarrow>
                                 if toUpperCase period = js ''PM'' \<and> hours0 \<noteq> Some 12
                                 then num_add hours0 12
                                 else if toUpperCase period = js ''AM'' \<and> hours0 = Some 12
                                 then Some 0
                                 else hours0)
                      in DateYMDHMS year (num_add month (- 1)) day hours minutes seconds))
         | _ \<Rightarrow> DateNow)"

section \<open>Format Detector: \<^verbatim>\<open>detectFormat\<close>\<close>

text \<open>\<^verbatim>\<open>content.replace(/\r\n/g, '\n')\<close>\<close>

fun crlf_to_lf :: "jsstring \<Rightarrow> jsstring" where
  "crlf_to_lf (a # b # cs) =
     (if a = 0x0d \<and> b = 0x0a then 0x0a # crlf_to_lf cs else a # crlf_to_lf (b # cs))"
| "crlf_to_lf cs = cs"

definition newline :: "jschar \<Rightarrow> bool" where
  "newline c \<longleftrightarrow> c = 0x0a"

definition am_pm :: re where
  "am_pm = ralt [rlit ''AM'', rlit ''PM'', rlit ''am'', rlit ''pm'']"

text \<open>\<^verbatim>\<open>/^\[[\d\/]+,\s*[\d:]+\s*(?:AM|PM|am|pm)?\]/\<close>\<close>

definition bracketHeaderRe :: re where
  "bracketHeaderRe =
     rseq [rch CHR ''['', rplus (Cls (In [(0x30, 0x39), (0x2f, 0x2f)])), rch CHR '','',
           rstar white, rplus (Cls (In [(0x30, 0x39), (0x3a, 0x3a)])), rstar white,
           ropt am_pm, rch CHR '']'']"

text \<open>\<^verbatim>\<open>/^\[[\d\/]+,\s*\d{1,2}:\d{2}:\d{2}/\<close>\<close>

definition bracketSecondsRe :: re where
  "bracketSecondsRe =
     rseq [rch CHR ''['', rplus (Cls (In [(0x30, 0x39), (0x2f, 0x2f)])), rch CHR '','',
           rstar white, Rep 1 (Some 2) digit, rch CHR '':'', Rep 2 (Some 2) digit,
           rch CHR '':'', Rep 2 (Some 2) digit]"

text \<open>\<^verbatim>\<open>/^[\d\/\.]+,\s*[\d:]+\s*(?:AM|PM|am|pm)?\s*-\s*[^:]+:/\<close>\<close>

definition dashHeaderRe :: re where
  "dashHeaderRe =
     rseq [rplus (Cls (In [(0x30, 0x39), (0x2f, 0x2f), (0x2e, 0x2e)])), rch CHR '','',
           rstar white, rplus (Cls (In [(0x30, 0x39), (0x3a, 0x3a)])), rstar white,
           ropt am_pm, rstar white, rch CHR ''-'', rstar white,
           rplus (not_char 0x3a), rch CHR '':'']"

text \<open>
  \<^verbatim>\<open>detectFormat(content)\<close> (parser.js, lines 52-80): the loop over
  \<^verbatim>\<open>content.replace(/\r\n/g, '\n').split('\n').slice(0, 20)\<close>, with its three \<^verbatim>\<open>return\<close>s and
  the default after the loop. The results \<^verbatim>\<open>'ios'\<close>, \<^verbatim>\<open>'android-bracket'\<close> and \<^verbatim>\<open>'android-dash'\<close>
  are \<open>Ios\<close>, \<open>AndroidBracket\<close> and \<open>AndroidDash\<close>.
\<close>

fun detect_loop :: "jsstring list \<Rightarrow> export_format" where
  "detect_loop [] = Ios"
| "detect_loop (rawLine # lines) =
     (let line = cleanText rawLine
      in if line = [] then detect_loop lines
         else if test_here bracketHeaderRe line
              then (if test_here bracketSecondsRe line then Ios else AndroidBracket)
         else if test_here dashHeaderRe line then AndroidDash
         else detect_loop lines)"

definition detectFormat :: "jsstring \<Rightarrow> export_format" where
  "detectFormat content = detect_loop (take 20 (split_on newline (crlf_to_lf content)))"

subsection \<open>The detector as the specification words it\<close>

text \<open>
  The first line of a window that matches either header grammar decides the dialect; the
  bracket grammar is tested first and is sub-classified by the seconds field; without a
  matching line the dialect is \<open>Ios\<close> (bracketed with seconds).
\<close>

definition header_line :: "jsstring \<Rightarrow> bool" where
  "header_line l \<longleftrightarrow> test_here bracketHeaderRe l \<or> test_here dashHeaderRe l"

definition first_match_dialect :: "jsstring list \<Rightarrow> export_format" where
  "first_match_dialect window =
     (case find header_line window of
        None \<Rightarrow> Ios
      | Some l \<Rightarrow>
          if test_here bracketHeaderRe l
          then (if test_here bracketSecondsRe l then Ios else AndroidBracket)
          else AndroidDash)"

text \<open>
  The window in the words of the specification: the first 20 non-empty normalized lines
  of the input.
\<close>

definition detectFormat_spec :: "jsstring \<Rightarrow> export_format" where
  "detectFormat_spec content =
     first_match_dialect
       (take 20 (filter (\<lambda>l. l \<noteq> []) (map cleanText (split_on newline (crlf_to_lf content)))))"

section \<open>The host\<close>

text \<open>
  What \<^verbatim>\<open>parse\<close> takes from the platform it runs on: the reading of the clock (the value of
  \<^verbatim>\<open>new Date()\<close>), the date format
  \<^verbatim>\<open>toLocaleDateString('en-US', {month: 'short', day: 'numeric', year: 'numeric'})\<close>, and
  \<^verbatim>\<open>String.prototype.toLowerCase\<close>, which follows the case mappings of Unicode. They are
  parameters of the model: nothing is assumed about them.
\<close>

record host =
  clock :: int
  toLocaleDateString :: "jsdate \<Rightarrow> jsstring"
  toLowerCase :: "jsstring \<Rightarrow> jsstring"

section \<open>Media Resolver: \<^verbatim>\<open>findMediaFile\<close>\<close>

text \<open>
  The lookup table is a JavaScript \<^verbatim>\<open>Map\<close> from file names to payloads; the application
  stores data URLs, which are strings. A \<^verbatim>\<open>Map\<close> is iterated in insertion order, so the table
  is an association list; \<open>map_of\<close> is \<^verbatim>\<open>has\<close> and \<^verbatim>\<open>get\<close>.
\<close>

type_synonym media_table = "(jsstring \<times> jsstring) list"

text \<open>\<^verbatim>\<open>s.includes(t)\<close>: \<open>t\<close> occurs in \<open>s\<close>.\<close>

fun starts_with :: "jsstring \<Rightarrow> jsstring \<Rightarrow> bool" where
  "starts_with s [] = True"
| "starts_with [] (p # ps) = False"
| "starts_with (c # cs) (p # ps) = (c = p \<and> starts_with cs ps)"

fun js_includes :: "jsstring \<Rightarrow> jsstring \<Rightarrow> bool" where
  "js_includes [] t = (t = [])"
| "js_includes (c # cs) t = (starts_with (c # cs) t \<or> js_includes cs t)"

text \<open>
  \<^verbatim>\<open>for (const [key, value] of mediaFiles) { if (P(key)) return value; }\<close>
\<close>

fun find_value :: "(jsstring \<Rightarrow> bool) \<Rightarrow> media_table \<Rightarrow> jsstring option" where
  "find_value P [] = None"
| "find_value P ((key, v) # rest) = (if P key then Some v else find_value P rest)"

text \<open>\<^verbatim>\<open>/(\d{5,}[-_](?:PHOTO|VIDEO|AUDIO|DOCUMENT|FILE)[-_\d]+\.\w+)/i\<close>\<close>

definition coreRe :: re where
  "coreRe =
     Grp 1 (rseq [Rep 5 None digit, Cls (In [(0x2d, 0x2d), (0x5f, 0x5f)]),
                  ralt [rlit_i ''PHOTO'', rlit_i ''VIDEO'', rlit_i ''AUDIO'', rlit_i ''DOCUMENT'',
                        rlit_i ''FILE''],
                  rplus (Cls (In [(0x2d, 0x2d), (0x5f, 0x5f), (0x30, 0x39)])),
                  rch CHR ''.'', rplus word_char])"

text \<open>\<^verbatim>\<open>/(\d{8,})/\<close>\<close>

definition numericRe :: re where
  "numericRe = Grp 1 (Rep 8 None digit)"

text \<open>\<^verbatim>\<open>s.match(r)\<close> followed by \<^verbatim>\<open>[1]\<close>, for a pattern that is one group.\<close>

definition first_group :: "re \<Rightarrow> jsstring \<Rightarrow> jsstring option" where
  "first_group r s = (case search r s of None \<Rightarrow> None | Some (pre, rest, m) \<Rightarrow> group m 1)"

text \<open>
  \<^verbatim>\<open>findMediaFile(filename, mediaFiles)\<close> (parser.js, lines 462-513), on a host; \<open>None\<close> is
  \<^verbatim>\<open>null\<close>.
\<close>

definition findMediaFile :: "host \<Rightarrow> jsstring \<Rightarrow> media_table \<Rightarrow> jsstring option" where
  "findMediaFile h filename mediaFiles =
     (if filename = [] \<or> mediaFiles = [] then None
      else case map_of mediaFiles filename of
        Some v \<Rightarrow> Some v
      | None \<Rightarrow>
         (case find_value (\<lambda>key. toLowerCase h key = toLowerCase h filename) mediaFiles of
            Some v \<Rightarrow> Some v
          | None \<Rightarrow>
             (case (case first_group coreRe filename of
                      None \<Rightarrow> None
                    | Some coreFilename \<Rightarrow>
                        find_value (\<lambda>key. js_includes key coreFilename \<or> js_includes coreFilename key)
                          mediaFiles) of
                Some v \<Rightarrow> Some v
              | None \<Rightarrow>
                 (case first_group numericRe filename of
                    None \<Rightarrow> None
                  | Some numericPart \<Rightarrow> find_value (\<lambda>key. js_includes key numericPart) mediaFiles))))"

subsection \<open>The resolver as the specification words it\<close>

text \<open>
  A strategy looks for a key of the table with a property and gives the payload of the first
  such entry, in the order of the table.
\<close>

definition first_payload :: "(jsstring \<Rightarrow> bool) \<Rightarrow> media_table \<Rightarrow> jsstring option" where
  "first_payload P tbl = map_option snd (find (\<lambda>entry. P (fst entry)) tbl)"

text \<open>
  The four strategies in the words of the specification: (1) exact key match; (2)
  case-insensitive key match; (3) if the file name has the shape of a numeric id of five or
  more digits followed by a category tag, substring-match that core token against all keys;
  (4) if the file name contains a run of eight or more digits, substring-match that run
  against all keys. A substring match of a token against a key: the key contains the token.
\<close>

definition exact_match :: "jsstring \<Rightarrow> media_table \<Rightarrow> jsstring option" where
  "exact_match name tbl = first_payload (\<lambda>key. key = name) tbl"

definition case_insensitive_match :: "host \<Rightarrow> jsstring \<Rightarrow> media_table \<Rightarrow> jsstring option" where
  "case_insensitive_match h name tbl =
     first_payload (\<lambda>key. toLowerCase h key = toLowerCase h name) tbl"

definition core_token :: "jsstring \<Rightarrow> jsstring option" where
  "core_token name = first_group coreRe name"

definition digit_run :: "jsstring \<Rightarrow> jsstring option" where
  "digit_run name = first_group numericRe name"

definition core_token_match :: "jsstring \<Rightarrow> media_table \<Rightarrow> jsstring option" where
  "core_token_match name tbl =
     (case core_token name of
        None \<Rightarrow> None
      | Some token \<Rightarrow> first_payload (\<lambda>key. js_includes key token) tbl)"

definition numeric_run_match :: "jsstring \<Rightarrow> media_table \<Rightarrow> jsstring option" where
  "numeric_run_match name tbl =
     (case digit_run name of
        None \<Rightarrow> None
      | Some run \<Rightarrow> first_payload (\<lambda>key. js_includes key run) tbl)"

fun first_success :: "'a option list \<Rightarrow> 'a option" where
  "first_success [] = None"
| "first_success (Some v # rest) = Some v"
| "first_success (None # rest) = first_success rest"

text \<open>The cascade of the specification: the first strategy that succeeds wins.\<close>

definition resolver_cascade :: "host \<Rightarrow> jsstring \<Rightarrow> media_table \<Rightarrow> jsstring option" where
  "resolver_cascade h name tbl =
     first_success [exact_match name tbl, case_insensitive_match h name tbl,
                    core_token_match name tbl, numeric_run_match name tbl]"

text \<open>
  The third strategy as the code has it (line 492): the match of the core token against a
  key goes both ways, the key contains the token or the token contains the key. The cascade
  with this strategy in the third place:
\<close>

definition core_token_match_either_way :: "jsstring \<Rightarrow> media_table \<Rightarrow> jsstring option" where
  "core_token_match_either_way name tbl =
     (case core_token name of
        None \<Rightarrow> None
      | Some token \<Rightarrow> first_payload (\<lambda>key. js_includes key token \<or> js_includes token key) tbl)"

definition resolver_cascade_either_way :: "host \<Rightarrow> jsstring \<Rightarrow> media_table \<Rightarrow> jsstring option" where
  "resolver_cascade_either_way h name tbl =
     first_success [exact_match name tbl, case_insensitive_match h name tbl,
                    core_token_match_either_way name tbl, numeric_run_match name tbl]"

section \<open>Messages\<close>

text \<open>
  The \<^verbatim>\<open>type\<close> of a message is one of the strings \<^verbatim>\<open>'text'\<close>, \<^verbatim>\<open>'system'\<close>, \<^verbatim>\<open>'media'\<close>,
  \<^verbatim>\<open>'media_omitted'\<close>, \<^verbatim>\<open>'document'\<close>, \<^verbatim>\<open>'document_omitted'\<close>, \<^verbatim>\<open>'call'\<close>, \<^verbatim>\<open>'missed_call'\<close> and
  \<^verbatim>\<open>'deleted'\<close>; the \<^verbatim>\<open>type\<close> of a media descriptor is one of \<^verbatim>\<open>'image'\<close>, \<^verbatim>\<open>'video'\<close>, \<^verbatim>\<open>'audio'\<close>,
  \<^verbatim>\<open>'document'\<close>, \<^verbatim>\<open>'file'\<close> and \<^verbatim>\<open>'omitted'\<close>.
\<close>

datatype msg_kind =
  TextMsg | SystemMsg | MediaMsg | MediaOmittedMsg | DocumentMsg | DocumentOmittedMsg
  | CallMsg | MissedCallMsg | DeletedMsg

datatype media_kind = Image | Video | Audio | DocumentFile | OtherFile | Omitted

text \<open>
  The objects the parser builds. A field that the code leaves out or sets to \<^verbatim>\<open>null\<close> is
  \<open>None\<close>; the flags \<^verbatim>\<open>hasQuote\<close> and \<^verbatim>\<open>isEdited\<close>, when left out, are false.
\<close>

record media_info =
  filename :: "jsstring option"
  displayName :: "jsstring option"
  media_type :: media_kind
  extension :: "jsstring option"
  data :: "jsstring option"
  hasData :: bool
  pages :: "jsstring option"

record quoted =
  q_timestamp :: jsdate
  q_sender :: jsstring
  q_text :: jsstring

record message =
  msg_id :: nat
  timestamp :: jsdate
  sender :: jsstring
  rawText :: jsstring
  msg_text :: jsstring
  msg_type :: msg_kind
  media :: "media_info option"
  isSystem :: bool
  hasQuote :: bool
  quotedMessage :: "quoted option"
  isEdited :: bool

section \<open>Message Classifier: \<^verbatim>\<open>finalizeMessage\<close>\<close>

text \<open>
  \<^verbatim>\<open>getMediaType(extension)\<close> (parser.js, lines 619-628), a lookup in a table of the source,
  with \<^verbatim>\<open>'file'\<close> for an extension that is not in it. (The table is an object literal; the keys
  that an object inherits, such as \<^verbatim>\<open>constructor\<close>, are not modelled as extensions.)
\<close>

definition getMediaType :: "host \<Rightarrow> jsstring \<Rightarrow> media_kind" where
  "getMediaType h extension0 =
     (let ext = toLowerCase h extension0
      in if ext \<in> set (map js [''jpg'', ''jpeg'', ''png'', ''gif'', ''webp'', ''heic'']) then Image
         else if ext \<in> set (map js [''mp4'', ''mov'', ''avi'', ''3gp'', ''mkv'']) then Video
         else if ext \<in> set (map js [''mp3'', ''ogg'', ''opus'', ''m4a'', ''wav'', ''aac'']) then Audio
         else if ext \<in> set (map js [''pdf'', ''doc'', ''docx'', ''xls'', ''xlsx'']) then DocumentFile
         else OtherFile)"

text \<open>\<^verbatim>\<open>!!mediaData\<close>: a payload is there and is not the empty string.\<close>

definition truthy :: "jsstring option \<Rightarrow> bool" where
  "truthy v = (case v of None \<Rightarrow> False | Some s \<Rightarrow> s \<noteq> [])"

subsection \<open>The patterns of the classifier\<close>

definition sp :: re where
  "sp = rstar white"

text \<open>\<^verbatim>\<open>/<\s*attached\s*:\s*([^>]+)>/i\<close>\<close>

definition attachRe :: re where
  "attachRe =
     rseq [rch CHR ''<'', sp, rlit_i ''attached'', sp, rch CHR '':'', sp,
           Grp 1 (rplus (not_char 0x3e)), rch CHR ''>'']"

text \<open>\<^verbatim>\<open>/<\s*attached\s*:[^>]+>/gi\<close>\<close>

definition attachTagRe :: re where
  "attachTagRe =
     rseq [rch CHR ''<'', sp, rlit_i ''attached'', sp, rch CHR '':'', rplus (not_char 0x3e),
           rch CHR ''>'']"

text \<open>\<^verbatim>\<open>/[^\w\d.\-_]/g\<close>, removed from the file name\<close>

definition filename_char :: "jschar \<Rightarrow> bool" where
  "filename_char c \<longleftrightarrow>
     (0x41 \<le> c \<and> c \<le> 0x5a) \<or> (0x61 \<le> c \<and> c \<le> 0x7a) \<or> (0x30 \<le> c \<and> c \<le> 0x39)
     \<or> c = 0x5f \<or> c = 0x2e \<or> c = 0x2d"

text \<open>
  The file name of an attachment (lines 308-311): the group of the marker, normalized, then
  stripped of every code unit that is not a letter, a digit, a dot, a dash or an underscore.
\<close>

definition attachment_filename :: "jsstring \<Rightarrow> jsstring" where
  "attachment_filename g = trim (filter filename_char (cleanText g))"

text \<open>\<^verbatim>\<open>/(?:image|video|audio|sticker|document|GIF)\s*omitted/i\<close>\<close>

definition omittedRe :: re where
  "omittedRe =
     rseq [ralt [rlit_i ''image'', rlit_i ''video'', rlit_i ''audio'', rlit_i ''sticker'',
                 rlit_i ''document'', rlit_i ''GIF''],
           sp, rlit_i ''omitted'']"

text \<open>The bullet U+2022.\<close>

definition bullet :: jschar where
  "bullet = 0x2022"

text \<open>
  \<^verbatim>\<open>/([^B]+\.pdf)\s*B\s*(\d+)\s*pages?\s*<\s*attached\s*:\s*([^>]+)>/i\<close>, with \<^verbatim>\<open>B\<close> standing
  for the bullet
\<close>

definition pdfWithAttachRe :: re where
  "pdfWithAttachRe =
     rseq [Grp 1 (rseq [rplus (not_char bullet), rch CHR ''.'', rlit_i ''pdf'']),
           sp, Cls (In [(bullet, bullet)]), sp, Grp 2 (rplus digit), sp,
           rlit_i ''page'', ropt (rlit_i ''s''), sp,
           rch CHR ''<'', sp, rlit_i ''attached'', sp, rch CHR '':'', sp,
           Grp 3 (rplus (not_char 0x3e)), rch CHR ''>'']"

text \<open>
  \<^verbatim>\<open>/([^B]+\.(pdf|xlsx?|docx?|pptx?))\s*B\s*(\d+)\s*(pages?|sheets?)\s*(?:document\s*omitted)?/i\<close>
\<close>

definition docRe :: re where
  "docRe =
     rseq [Grp 1 (rseq [rplus (not_char bullet), rch CHR ''.'',
                        Grp 2 (ralt [rlit_i ''pdf'',
                                     rseq [rlit_i ''xls'', ropt (rlit_i ''x'')],
                                     rseq [rlit_i ''doc'', ropt (rlit_i ''x'')],
                                     rseq [rlit_i ''ppt'', ropt (rlit_i ''x'')]])]),
           sp, Cls (In [(bullet, bullet)]), sp, Grp 3 (rplus digit), sp,
           Grp 4 (ralt [rseq [rlit_i ''page'', ropt (rlit_i ''s'')],
                        rseq [rlit_i ''sheet'', ropt (rlit_i ''s'')]]),
           sp, ropt (rseq [rlit_i ''document'', sp, rlit_i ''omitted''])]"

text \<open>\<^verbatim>\<open>/B.*document\s*omitted/i\<close>\<close>

definition bulletOmittedRe :: re where
  "bulletOmittedRe =
     rseq [Cls (In [(bullet, bullet)]), rstar any_char, rlit_i ''document'', sp, rlit_i ''omitted'']"

text \<open>\<^verbatim>\<open>/Voice\s*call|Video\s*call|Group\s*call/i\<close>\<close>

definition callRe :: re where
  "callRe =
     ralt [rseq [rlit_i ''Voice'', sp, rlit_i ''call''],
           rseq [rlit_i ''Video'', sp, rlit_i ''call''],
           rseq [rlit_i ''Group'', sp, rlit_i ''call'']]"

text \<open>\<^verbatim>\<open>/(Voice\s*call|Video\s*call|Group\s*call)(?:,?\s*(.+))?/i\<close>\<close>

definition callDetailRe :: re where
  "callDetailRe =
     rseq [Grp 1 callRe,
           ropt (rseq [ropt (rch CHR '',''), sp, Grp 2 (rplus any_char)])]"

text \<open>\<^verbatim>\<open>/Missed.*call|No\s*answer|Tap\s*to\s*call\s*back/i\<close>\<close>

definition tapBack :: re where
  "tapBack = rseq [rlit_i ''Tap'', sp, rlit_i ''to'', sp, rlit_i ''call'', sp, rlit_i ''back'']"

definition noAnswerRe :: re where
  "noAnswerRe = rseq [rlit_i ''No'', sp, rlit_i ''answer'']"

definition missedRe :: re where
  "missedRe =
     ralt [rseq [rlit_i ''Missed'', rstar any_char, rlit_i ''call''], noAnswerRe, tapBack]"

text \<open>\<^verbatim>\<open>/,?\s*Tap\s*to\s*call\s*back/i\<close>\<close>

definition tapBackSuffixRe :: re where
  "tapBackSuffixRe = rseq [ropt (rch CHR '',''), sp, tapBack]"

text \<open>\<^verbatim>\<open>/(Voice\s*call|Video\s*call)/i\<close>\<close>

definition callTypeRe :: re where
  "callTypeRe =
     Grp 1 (ralt [rseq [rlit_i ''Voice'', sp, rlit_i ''call''],
                  rseq [rlit_i ''Video'', sp, rlit_i ''call'']])"

text \<open>\<^verbatim>\<open>/This message was deleted|You deleted this message/i\<close>\<close>

definition deletedRe :: re where
  "deletedRe = ralt [rlit_i ''This message was deleted'', rlit_i ''You deleted this message'']"

text \<open>
  \<^verbatim>\<open>/Messages and calls are end-to-end encrypted/i\<close> and
  \<^verbatim>\<open>/created group|added|left|removed|changed the subject|changed this group/i\<close>
\<close>

definition encryptedRe :: re where
  "encryptedRe = rlit_i ''Messages and calls are end-to-end encrypted''"

definition groupEventRe :: re where
  "groupEventRe =
     ralt [rlit_i ''created group'', rlit_i ''added'', rlit_i ''left'', rlit_i ''removed'',
           rlit_i ''changed the subject'', rlit_i ''changed this group'']"

text \<open>\<^verbatim>\<open>/<This message was edited>/i\<close>\<close>

definition editedRe :: re where
  "editedRe = rlit_i ''<This message was edited>''"

subsection \<open>\<^verbatim>\<open>cleanMessageText\<close> and \<^verbatim>\<open>finalizeMessage\<close>\<close>

text \<open>\<^verbatim>\<open>cleanMessageText(text)\<close> (parser.js, lines 518-532).\<close>

definition cleanMessageText :: "jsstring \<Rightarrow> jsstring" where
  "cleanMessageText text0 =
     (if text0 = [] then []
      else cleanText (remove_all bulletOmittedRe (remove_all omittedRe (remove_all attachTagRe text0))))"

text \<open>
  \<^verbatim>\<open>finalizeMessage(message, mediaFiles)\<close> (parser.js, lines 301-457), on a host. The function mutates
  the message; the model returns the message updated. Each \<^verbatim>\<open>return\<close> of the source ends a
  branch here, in the order of the source. The test \<^verbatim>\<open>docMatch || B.*document omitted\<close> is the
  \<open>case\<close> on \<open>docMatch\<close> followed by the test of the second pattern. The branch for a system
  message falls through to the last two, so it is the \<open>let\<close> before them.
\<close>

definition finalizeMessage :: "host \<Rightarrow> message \<Rightarrow> media_table \<Rightarrow> message" where
  "finalizeMessage h message mediaFiles =
     (let text0 = rawText message in
      case search attachRe text0 of
        Some (pre, rest, attachMatch) \<Rightarrow>
          (let filename0 = attachment_filename (group_str attachMatch 1);
               extension0 = toLowerCase h (last (split_on (\<lambda>c. c = 0x2e) filename0));
               mediaData = findMediaFile h filename0 mediaFiles
           in message\<lparr>media := Some \<lparr>filename = Some filename0, displayName = None,
                                     media_type = getMediaType h extension0,
                                     extension = Some extension0, data = mediaData,
                                     hasData = truthy mediaData, pages = None\<rparr>,
                       msg_type := MediaMsg,
                       msg_text := trim (remove_all attachTagRe text0)\<rparr>)
      | None \<Rightarrow>
      if test omittedRe text0 then
        message\<lparr>media := Some \<lparr>filename = None, displayName = None, media_type = Omitted,
                                extension = None, data = None, hasData = False, pages = None\<rparr>,
                  msg_type := MediaOmittedMsg,
                  msg_text := []\<rparr>
      else
      case search pdfWithAttachRe text0 of
        Some (pre, rest, pdfWithAttachMatch) \<Rightarrow>
          (let displayName0 = trim (group_str pdfWithAttachMatch 1);
               pages0 = group_str pdfWithAttachMatch 2;
               actualFilename = cleanText (group_str pdfWithAttachMatch 3);
               mediaData = findMediaFile h actualFilename mediaFiles
           in message\<lparr>media := Some \<lparr>filename = Some actualFilename,
                                     displayName = Some displayName0,
                                     media_type = DocumentFile, extension = Some (js ''pdf''),
                                     data = mediaData, hasData = truthy mediaData,
                                     pages = Some pages0\<rparr>,
                       msg_type := DocumentMsg,
                       msg_text := displayName0 @ [0x20, bullet, 0x20] @ pages0 @ js '' pages''\<rparr>)
      | None \<Rightarrow>
      case search docRe text0 of
        Some (pre, rest, docMatch) \<Rightarrow>
          (let filename0 = trim (group_str docMatch 1);
               extension0 = toLowerCase h (group_str docMatch 2);
               count = group_str docMatch 3;
               countType = group_str docMatch 4
           in message\<lparr>media := Some \<lparr>filename = Some filename0, displayName = None,
                                     media_type = DocumentFile, extension = Some extension0,
                                     data = None, hasData = False, pages = Some count\<rparr>,
                       msg_type := DocumentOmittedMsg,
                       msg_text := filename0 @ [0x20, bullet, 0x20] @ count @ [0x20] @ countType\<rparr>)
      | None \<Rightarrow>
      if test bulletOmittedRe text0 then
        message\<lparr>media := Some \<lparr>filename = None, displayName = None,
                                media_type = DocumentFile, extension = None,
                                data = None, hasData = False, pages = None\<rparr>,
                  msg_type := DocumentOmittedMsg,
                  msg_text := []\<rparr>
      else
      if test callRe text0 then
        (case search callDetailRe text0 of
           Some (pre, rest, callMatch) \<Rightarrow>
             (let callInfo = group_str callMatch 1;
                  details = (case group callMatch 2 of None \<Rightarrow> [] | Some d \<Rightarrow> cleanText d)
              in message\<lparr>msg_type := CallMsg,
                          msg_text := (if details = [] then callInfo
                                       else callInfo @ js '', '' @ details)\<rparr>)
         | None \<Rightarrow> message\<lparr>msg_type := CallMsg, msg_text := text0\<rparr>)
      else
      if test missedRe text0 then
        (let cleanedText = trim (remove_first tapBackSuffixRe text0)
         in message\<lparr>msg_type := MissedCallMsg,
                     msg_text :=
                       (if test noAnswerRe cleanedText
                        then (case first_group callTypeRe cleanedText of
                                Some callType \<Rightarrow> callType @ js '' - No answer''
                              | None \<Rightarrow> js ''Call - No answer'')
                        else if cleanedText = [] then js ''Missed call'' else cleanedText)\<rparr>)
      else
      if test deletedRe text0 then
        message\<lparr>msg_type := DeletedMsg, msg_text := js ''This message was deleted''\<rparr>
      else
      let message1 =
            (if test encryptedRe text0 \<or> test groupEventRe text0
             then message\<lparr>isSystem := True, msg_type := SystemMsg\<rparr>
             else message)
      in if test editedRe text0
         then message1\<lparr>isEdited := True,
                        msg_text := cleanMessageText (trim (remove_all editedRe text0))\<rparr>
         else message1\<lparr>msg_text := cleanMessageText text0\<rparr>)"

section \<open>Cleanup filter: \<^verbatim>\<open>cleanupMessages\<close>\<close>

text \<open>
  \<^verbatim>\<open>cleanupMessages(messages)\<close> (parser.js, lines 273-296): the predicate of the \<^verbatim>\<open>filter\<close>,
  test by test.
\<close>

definition keep_message :: "message \<Rightarrow> bool" where
  "keep_message msg =
     (if media msg \<noteq> None then True
      else if quotedMessage msg \<noteq> None then True
      else if trim (msg_text msg) \<noteq> [] then True
      else if isSystem msg then True
      else if msg_type msg = CallMsg \<or> msg_type msg = MissedCallMsg then True
      else if msg_type msg = DeletedMsg then True
      else False)"

definition cleanupMessages :: "message list \<Rightarrow> message list" where
  "cleanupMessages messages = filter keep_message messages"

section \<open>Boundary Scanner: \<^verbatim>\<open>parse\<close>\<close>

subsection \<open>Header grammars\<close>

text \<open>
  The date and time tokens shared by the four patterns:
  \<^verbatim>\<open>\d{1,2}[\/.]\d{1,2}[\/.]\d{2,4}\<close> and \<^verbatim>\<open>\d{1,2}:\d{2}(?::\d{2})?\s*(?:AM|PM|am|pm)?\<close>.
\<close>

definition dateTokenRe :: re where
  "dateTokenRe =
     rseq [Rep 1 (Some 2) digit, Cls (In [(0x2f, 0x2f), (0x2e, 0x2e)]),
           Rep 1 (Some 2) digit, Cls (In [(0x2f, 0x2f), (0x2e, 0x2e)]),
           Rep 2 (Some 4) digit]"

definition timeTokenRe :: re where
  "timeTokenRe =
     rseq [Rep 1 (Some 2) digit, rch CHR '':'', Rep 2 (Some 2) digit,
           ropt (rseq [rch CHR '':'', Rep 2 (Some 2) digit]), sp, ropt am_pm]"

text \<open>\<^verbatim>\<open>bracketPattern = /^\[(DATE),\s*(TIME)\]\s*([^:]+):\s*(.*)/\<close>\<close>

definition bracketPattern :: re where
  "bracketPattern =
     rseq [rch CHR ''['', Grp 1 dateTokenRe, rch CHR '','', sp, Grp 2 timeTokenRe, rch CHR '']'',
           sp, Grp 3 (rplus (not_char 0x3a)), rch CHR '':'', sp, Grp 4 (rstar any_char)]"

text \<open>\<^verbatim>\<open>dashPattern = /^(DATE),\s*(TIME)\s*-\s*([^:]+):\s*(.*)/\<close>\<close>

definition dashPattern :: re where
  "dashPattern =
     rseq [Grp 1 dateTokenRe, rch CHR '','', sp, Grp 2 timeTokenRe, sp, rch CHR ''-'',
           sp, Grp 3 (rplus (not_char 0x3a)), rch CHR '':'', sp, Grp 4 (rstar any_char)]"

text \<open>\<^verbatim>\<open>sysBracketPattern = /^\[(DATE),\s*(TIME)\]\s*(.+)/\<close>\<close>

definition sysBracketPattern :: re where
  "sysBracketPattern =
     rseq [rch CHR ''['', Grp 1 dateTokenRe, rch CHR '','', sp, Grp 2 timeTokenRe, rch CHR '']'',
           sp, Grp 3 (rplus any_char)]"

text \<open>\<^verbatim>\<open>sysDashPattern = /^(DATE),\s*(TIME)\s*-\s*(.+)/\<close>\<close>

definition sysDashPattern :: re where
  "sysDashPattern =
     rseq [Grp 1 dateTokenRe, rch CHR '','', sp, Grp 2 timeTokenRe, sp, rch CHR ''-'',
           sp, Grp 3 (rplus any_char)]"

definition messagePattern :: "export_format \<Rightarrow> re" where
  "messagePattern exportFormat =
     (if exportFormat = AndroidDash then dashPattern else bracketPattern)"

definition sysPattern :: "export_format \<Rightarrow> re" where
  "sysPattern exportFormat =
     (if exportFormat = AndroidDash then sysDashPattern else sysBracketPattern)"

subsection \<open>Senders and participants\<close>

text \<open>
  \<^verbatim>\<open>cleanSenderName(sender)\<close> (parser.js, lines 537-540);
  \<^verbatim>\<open>.replace(/^~+/, '')\<close> drops the leading tildes.
\<close>

definition cleanSenderName :: "jsstring \<Rightarrow> jsstring" where
  "cleanSenderName sender0 =
     (if sender0 = [] then js ''Unknown''
      else let s = trim (dropWhile (\<lambda>c. c = 0x7e) (cleanText sender0))
           in if s = [] then js ''Unknown'' else s)"

text \<open>\<^verbatim>\<open>isSystemSender(sender)\<close> (parser.js, lines 545-548).\<close>

definition isSystemSender :: "host \<Rightarrow> jsstring \<Rightarrow> bool" where
  "isSystemSender h sender0 =
     (let s = toLowerCase h sender0 in s = js ''system'' \<or> js_includes s (js ''whatsapp''))"

text \<open>
  \<^verbatim>\<open>participants\<close> is a \<^verbatim>\<open>Map\<close> from names to counts, in insertion order.
  \<^verbatim>\<open>participants.set(name, (participants.get(name) || 0) + 1)\<close>:
\<close>

fun count_sender :: "jsstring \<Rightarrow> (jsstring \<times> nat) list \<Rightarrow> (jsstring \<times> nat) list" where
  "count_sender name [] = [(name, 1)]"
| "count_sender name ((k, n) # rest) =
     (if k = name then (k, n + 1) # rest else (k, n) # count_sender name rest)"

subsection \<open>The loop over the lines\<close>

text \<open>
  The local variables of \<^verbatim>\<open>parse\<close> that the loop updates.
\<close>

record scan_state =
  messages :: "message list"
  participants :: "(jsstring \<times> nat) list"
  currentMessage :: "message option"
  lastTimestamp :: "jsdate option"

text \<open>
  \<^verbatim>\<open>if (currentMessage) { this.finalizeMessage(currentMessage, mediaFiles);
  messages.push(currentMessage); }\<close>: the list of messages afterwards.
\<close>

definition push_current :: "host \<Rightarrow> media_table \<Rightarrow> scan_state \<Rightarrow> message list" where
  "push_current h mediaFiles st =
     (case currentMessage st of
        None \<Rightarrow> messages st
      | Some cur \<Rightarrow> messages st @ [finalizeMessage h cur mediaFiles])"

text \<open>The object literal of a message opened by a header (lines 160-170 and 189-199).\<close>

definition new_message :: "nat \<Rightarrow> jsdate \<Rightarrow> jsstring \<Rightarrow> jsstring \<Rightarrow> message" where
  "new_message i ts name txt =
     \<lparr>msg_id = i, timestamp = ts, sender = name, rawText = txt, msg_text = [],
      msg_type = TextMsg, media = None, isSystem = False, hasQuote = False,
      quotedMessage = None, isEdited = False\<rparr>"

text \<open>
  \<^verbatim>\<open>isQuotedMessage\<close> (lines 129-132): a previous header was seen, this header is strictly
  earlier, and the open message has no text yet.
\<close>

definition isQuotedMessage :: "int \<Rightarrow> jsdate \<Rightarrow> scan_state \<Rightarrow> bool" where
  "isQuotedMessage now ts st =
     ((case lastTimestamp st of None \<Rightarrow> False | Some l \<Rightarrow> date_lt now ts l)
      \<and> (case currentMessage st of
            None \<Rightarrow> False
          | Some cur \<Rightarrow> rawText cur = [] \<or> trim (rawText cur) = []))"

text \<open>
  The look-ahead of lines 148-154: the next raw line (the empty string after the last
  line), normalized, is a header with a strictly earlier time stamp.
\<close>

definition next_is_earlier_header ::
  "int \<Rightarrow> export_format \<Rightarrow> jsdate \<Rightarrow> jsstring option \<Rightarrow> bool" where
  "next_is_earlier_header now exportFormat ts lookahead =
     (let nextLine = (case lookahead of None \<Rightarrow> [] | Some raw \<Rightarrow> cleanText raw)
      in case match_here (messagePattern exportFormat) nextLine of
           None \<Rightarrow> False
         | Some (rest, nextMatch) \<Rightarrow>
             date_lt now
               (parseDateTime (group_str nextMatch 1) (group_str nextMatch 2) exportFormat) ts)"

text \<open>
  One turn of the \<^verbatim>\<open>for\<close> loop (lines 110-239), on the raw line \<^verbatim>\<open>rawLines[i]\<close> with
  \<^verbatim>\<open>rawLines[i + 1]\<close> as look-ahead, if there is one.
\<close>

definition scan_line ::
  "host \<Rightarrow> export_format \<Rightarrow> media_table \<Rightarrow> jsstring \<Rightarrow> jsstring option \<Rightarrow> scan_state \<Rightarrow> scan_state"
where
  "scan_line h exportFormat mediaFiles rawLine lookahead st =
     (let line = cleanText rawLine in
      if line = [] then st
      else
      case match_here (messagePattern exportFormat) line of
        Some (rest, m) \<Rightarrow>
          (let text0 = group_str m 4;
               ts = parseDateTime (group_str m 1) (group_str m 2) exportFormat;
               cleanSender = cleanSenderName (group_str m 3)
           in if isQuotedMessage (clock h) ts st
              then st\<lparr>currentMessage :=
                        map_option
                          (\<lambda>cur. cur\<lparr>quotedMessage :=
                                         Some \<lparr>q_timestamp = ts, q_sender = cleanSender,
                                               q_text = text0\<rparr>,
                                      rawText := [], hasQuote := True\<rparr>)
                          (currentMessage st)\<rparr>
              else if trim text0 = [] \<and> currentMessage st \<noteq> None
                      \<and> next_is_earlier_header (clock h) exportFormat ts lookahead
              then st\<lparr>messages := push_current h mediaFiles st,
                      currentMessage :=
                        Some (new_message (length (push_current h mediaFiles st)) ts cleanSender []),
                      lastTimestamp := Some ts\<rparr>
              else st\<lparr>messages := push_current h mediaFiles st,
                      participants :=
                        (if isSystemSender h cleanSender then participants st
                         else count_sender cleanSender (participants st)),
                      currentMessage :=
                        Some (new_message (length (push_current h mediaFiles st)) ts cleanSender text0),
                      lastTimestamp := Some ts\<rparr>)
      | None \<Rightarrow>
          (case currentMessage st of
             Some cur \<Rightarrow>
               st\<lparr>currentMessage :=
                    Some (if hasQuote cur \<and> rawText cur = [] then cur\<lparr>rawText := line\<rparr>
                          else cur\<lparr>rawText := rawText cur @ [0x0a] @ line\<rparr>)\<rparr>
           | None \<Rightarrow>
               (case match_here (sysPattern exportFormat) line of
                  Some (rest, sysMatch) \<Rightarrow>
                    (let ts = parseDateTime (group_str sysMatch 1) (group_str sysMatch 2)
                                exportFormat
                     in st\<lparr>currentMessage :=
                             Some \<lparr>msg_id = length (messages st), timestamp = ts,
                                   sender = js ''System'', rawText = group_str sysMatch 3,
                                   msg_text = [], msg_type = SystemMsg, media = None,
                                   isSystem = True, hasQuote = False, quotedMessage = None,
                                   isEdited = False\<rparr>,
                           lastTimestamp := Some ts\<rparr>)
                | None \<Rightarrow> st)))"

fun scan_lines ::
  "host \<Rightarrow> export_format \<Rightarrow> media_table \<Rightarrow> jsstring list \<Rightarrow> scan_state \<Rightarrow> scan_state"
where
  "scan_lines h exportFormat mediaFiles [] st = st"
| "scan_lines h exportFormat mediaFiles (rawLine # rest) st =
     scan_lines h exportFormat mediaFiles rest
       (scan_line h exportFormat mediaFiles rawLine
          (case rest of [] \<Rightarrow> None | l # ls \<Rightarrow> Some l) st)"

subsection \<open>Statistics and the result\<close>

record stats =
  totalMessages :: nat
  mediaMessages :: nat
  participantCount :: nat
  firstDate :: "jsdate option"
  lastDate :: "jsdate option"
  dateRange :: jsstring

text \<open>
  The result of \<^verbatim>\<open>parse\<close>. Its messages carry two more strings, \<^verbatim>\<open>formattedTime\<close> and
  \<^verbatim>\<open>formattedDate\<close>, made by the host's locale functions from the time stamp; they are display
  strings and are not modelled. Every other field of a message is copied as it is.
\<close>

record chat_data =
  cd_messages :: "message list"
  cd_participants :: "(jsstring \<times> nat) list"
  cd_stats :: stats
  cd_exportFormat :: export_format

text \<open>\<^verbatim>\<open>formatDateRange(start, end)\<close> (parser.js, lines 692-698).\<close>

definition formatDateRange :: "host \<Rightarrow> jsdate option \<Rightarrow> jsdate option \<Rightarrow> jsstring" where
  "formatDateRange h start0 end0 =
     (case (start0, end0) of
        (Some s, Some e) \<Rightarrow>
          (let startStr = toLocaleDateString h s; endStr = toLocaleDateString h e
           in if startStr = endStr then startStr else startStr @ js '' - '' @ endStr)
      | _ \<Rightarrow> js ''-'')"

text \<open>
  \<^verbatim>\<open>calculateStats(messages, participants)\<close> (parser.js, lines 666-687). The dates are the
  valid time stamps, sorted by time value (the sort is stable).
\<close>

definition valid_date :: "int \<Rightarrow> jsdate \<Rightarrow> bool" where
  "valid_date now d = (time_value now d \<noteq> None)"

definition time_key :: "int \<Rightarrow> jsdate \<Rightarrow> int" where
  "time_key now d = (case time_value now d of None \<Rightarrow> 0 | Some v \<Rightarrow> v)"

definition calculateStats :: "host \<Rightarrow> message list \<Rightarrow> (jsstring \<times> nat) list \<Rightarrow> stats" where
  "calculateStats h msgs parts =
     (let mediaMsgs = filter (\<lambda>m. msg_type m = MediaMsg \<or> msg_type m = MediaOmittedMsg
                                   \<or> msg_type m = DocumentOmittedMsg) msgs;
          dates = sort_key (time_key (clock h))
                    (filter (valid_date (clock h)) (map timestamp msgs));
          first = (case dates of [] \<Rightarrow> None | d # ds \<Rightarrow> Some d);
          final = (case dates of [] \<Rightarrow> None | d # ds \<Rightarrow> Some (last dates))
      in \<lparr>totalMessages = length msgs, mediaMessages = length mediaMsgs,
          participantCount = length parts, firstDate = first, lastDate = final,
          dateRange = formatDateRange h first final\<rparr>)"

text \<open>
  \<^verbatim>\<open>parse(content, mediaFiles)\<close> (parser.js, lines 88-268). The lines are those of
  \<^verbatim>\<open>content.replace(/\r\n/g, '\n').replace(/\r/g, '\n').split('\n')\<close>; the participants are
  sorted by count, larger first (the sort is stable).
\<close>

definition rawLines :: "jsstring \<Rightarrow> jsstring list" where
  "rawLines content =
     split_on newline (map (\<lambda>c. if c = 0x0d then 0x0a else c) (crlf_to_lf content))"

definition initial_state :: scan_state where
  "initial_state =
     \<lparr>messages = [], participants = [], currentMessage = None, lastTimestamp = None\<rparr>"

definition scanned :: "host \<Rightarrow> jsstring \<Rightarrow> media_table \<Rightarrow> scan_state" where
  "scanned h content mediaFiles =
     scan_lines h (detectFormat content) mediaFiles (rawLines content) initial_state"

definition parse :: "host \<Rightarrow> jsstring \<Rightarrow> media_table \<Rightarrow> chat_data" where
  "parse h content mediaFiles =
     (let st = scanned h content mediaFiles;
          cleanedMessages = cleanupMessages (push_current h mediaFiles st)
      in \<lparr>cd_messages = cleanedMessages,
          cd_participants = sort_key (\<lambda>(name, count). - int count) (participants st),
          cd_stats = calculateStats h cleanedMessages (participants st),
          cd_exportFormat = detectFormat content\<rparr>)"

subsection \<open>A sample host\<close>

text \<open>
  For evaluating \<open>parse\<close> on concrete inputs: a host on UTC whose clock reads noon of
  2 January 2024 and whose short en-US date format is \<^verbatim>\<open>Jan 2, 2024\<close>. The conversion from a
  day number to a civil date is the usual one by 400-year eras; \<open>decimal\<close> writes a number
  that is not negative. Its \<^verbatim>\<open>toLowerCase\<close> folds the ASCII letters, as
  \<^verbatim>\<open>String.prototype.toLowerCase\<close> does on the ASCII strings of the examples; the theorems
  that are stated for every host do not depend on it.
\<close>

definition civil_from_days :: "int \<Rightarrow> int \<times> int \<times> int" where
  "civil_from_days z0 =
     (let z = z0 + 719468;
          era = z div 146097;
          doe = z mod 146097;
          yoe = (doe - doe div 1460 + doe div 36524 - doe div 146096) div 365;
          doy = doe - (365 * yoe + yoe div 4 - yoe div 100);
          mp = (5 * doy + 2) div 153;
          d = doy - (153 * mp + 2) div 5 + 1;
          m = (if mp < 10 then mp + 3 else mp - 9);
          y = yoe + era * 400 + (if m \<le> 2 then 1 else 0)
      in (y, m, d))"

function decimal :: "int \<Rightarrow> jsstring" where
  "decimal n = (if n < 10 then [0x30 + n] else decimal (n div 10) @ [0x30 + n mod 10])"
  by pat_completeness auto
termination
  by (relation "measure nat") auto

definition month_names :: "jsstring list" where
  "month_names =
     map js [''Jan'', ''Feb'', ''Mar'', ''Apr'', ''May'', ''Jun'', ''Jul'', ''Aug'', ''Sep'', ''Oct'',
             ''Nov'', ''Dec'']"

definition en_US_short_date :: "int \<Rightarrow> jsdate \<Rightarrow> jsstring" where
  "en_US_short_date now d =
     (case time_value now d of
        None \<Rightarrow> js ''Invalid Date''
      | Some t \<Rightarrow>
          (case civil_from_days (t div 86400000) of
             (y, m, dd) \<Rightarrow>
               month_names ! nat (m - 1) @ js '' '' @ decimal dd @ js '', '' @ decimal y))"

definition ascii_lower :: "jsstring \<Rightarrow> jsstring" where
  "ascii_lower s = map (\<lambda>c. if 0x41 \<le> c \<and> c \<le> 0x5a then c + 0x20 else c) s"

definition sample_host :: host where
  "sample_host =
     \<lparr>clock = 1704196800000, toLocaleDateString = en_US_short_date 1704196800000,
      toLowerCase = ascii_lower\<rparr>"

section \<open>Auxiliary definitions of the scanner\<close>

text \<open>
  A raw line that opens no message on its own: it is empty once normalized, or it matches
  neither the header grammar nor the headerless system grammar of the dialect.
\<close>

definition unrecognized :: "export_format \<Rightarrow> jsstring \<Rightarrow> bool" where
  "unrecognized exportFormat raw =
     (let line = cleanText raw
      in line = [] \<or> (match_here (messagePattern exportFormat) line = None
                       \<and> match_here (sysPattern exportFormat) line = None))"

text \<open>The result of \<^verbatim>\<open>parse\<close> with no message and no participant.\<close>

definition empty_chat_data :: "export_format \<Rightarrow> chat_data" where
  "empty_chat_data exportFormat =
     \<lparr>cd_messages = [], cd_participants = [],
      cd_stats = \<lparr>totalMessages = 0, mediaMessages = 0, participantCount = 0,
                  firstDate = None, lastDate = None, dateRange = js ''-''\<rparr>,
      cd_exportFormat = exportFormat\<rparr>"

text \<open>
  The invariant of the loop: the messages pushed so far carry the ids 0, 1, ... in order,
  and the open message, if any, carries the next id.
\<close>

definition ids_dense :: "scan_state \<Rightarrow> bool" where
  "ids_dense st =
     (map msg_id (messages st) = [0..<length (messages st)]
      \<and> (case currentMessage st of None \<Rightarrow> True | Some cur \<Rightarrow> msg_id cur = length (messages st)))"


section \<open>Inputs of the worked examples\<close>

text \<open>
  The quote-merge example of the specification: a header of Alice with no text, then a
  header of Bob that is one minute earlier.
\<close>

definition quote_merge_input :: jsstring where
  "quote_merge_input =
     js ''[1/2/24, 10:00:00 AM] Alice: '' @ [0x0a] @ js ''[1/2/24, 09:59:00 AM] Bob: Hi''"

text \<open>
  An empty message of Alice followed by a later message of Bob: the first message is
  dropped by the cleanup filter.
\<close>

definition dropped_first_input :: jsstring where
  "dropped_first_input =
     js ''[1/2/24, 10:00:00 AM] Alice: '' @ [0x0a] @ js ''[1/2/24, 10:01:00 AM] Bob: Hi''"

text \<open>
  A reply with a quote after an earlier message: Bob writes, then Alice replies (her header
  has no text and is followed by the quoted header of Bob, six minutes earlier),
  and the text of her reply comes last.
\<close>

definition reply_after_message_input :: jsstring where
  "reply_after_message_input =
     js ''[1/2/24, 10:00:00 AM] Bob: hello'' @ [0x0a]
     @ js ''[1/2/24, 10:05:00 AM] Alice:'' @ [0x0a]
     @ js ''[1/2/24, 09:59:00 AM] Bob: Hi'' @ [0x0a]
     @ js ''Sure''"

text \<open>A PDF attachment as the export writes it: display name, page count, marker.\<close>

definition pdf_attachment_text :: jsstring where
  "pdf_attachment_text =
     js ''report.pdf '' @ [bullet] @ js '' 3 pages <attached: 00000012-report.pdf>''"




text \<open>
  A file name with a core token, and a table whose only key is a part of that token.
\<close>

definition photo_name :: jsstring where
  "photo_name = js ''00000012-PHOTO-2024-01-02.jpg''"

definition short_key_table :: media_table where
  "short_key_table = [(js ''2.jpg'', js ''data:image/jpeg;base64,WRONG'')]"

section \<open>Properties of the Text Normalizer\<close>

lemma collapse_spaces_head: "\<exists>r. collapse_spaces (b # cs) = b # r"
  by (induction cs arbitrary: b) auto

lemma no_double_space_collapse: "no_double_space (collapse_spaces t)"
proof (induction t rule: collapse_spaces.induct)
  case (1 a b cs)
  obtain r where r: "collapse_spaces (b # cs) = b # r"
    using collapse_spaces_head by blast
  with 1 show ?case by auto
qed simp_all

lemma collapse_spaces_fix: "no_double_space t \<Longrightarrow> collapse_spaces t = t"
  by (induction t rule: collapse_spaces.induct) auto

lemma set_collapse_spaces: "set (collapse_spaces t) \<subseteq> set t"
  by (induction t rule: collapse_spaces.induct) auto

lemma no_double_space_tl: "no_double_space (a # t) \<Longrightarrow> no_double_space t"
  by (cases t) auto

lemma no_double_space_dropWhile: "no_double_space t \<Longrightarrow> no_double_space (dropWhile P t)"
  by (induction t) (auto dest: no_double_space_tl)

lemma no_double_space_prefix: "no_double_space (a @ b) \<Longrightarrow> no_double_space a"
proof (induction a rule: no_double_space.induct)
  case (1 x y cs)
  then show ?case by auto
qed simp_all

lemma rev_dropWhile_rev_prefix: "\<exists>r. t = rev (dropWhile P (rev t)) @ r"
proof -
  have "rev t = takeWhile P (rev t) @ dropWhile P (rev t)" by simp
  then have "t = rev (takeWhile P (rev t) @ dropWhile P (rev t))" by (metis rev_rev_ident)
  then show ?thesis by (metis rev_append)
qed

lemma no_double_space_trim: "no_double_space t \<Longrightarrow> no_double_space (trim t)"
proof -
  assume a: "no_double_space t"
  let ?u = "dropWhile is_white_space t"
  have u: "no_double_space ?u" using a by (rule no_double_space_dropWhile)
  obtain r where "?u = rev (dropWhile is_white_space (rev ?u)) @ r"
    using rev_dropWhile_rev_prefix by blast
  then have "no_double_space (rev (dropWhile is_white_space (rev ?u)))"
    using u no_double_space_prefix by metis
  then show ?thesis by (simp add: trim_def)
qed

lemma set_trim: "set (trim t) \<subseteq> set t"
proof -
  have "set (trim t) = set (dropWhile is_white_space (rev (dropWhile is_white_space t)))"
    by (simp add: trim_def)
  also have "\<dots> \<subseteq> set (rev (dropWhile is_white_space t))" by (rule set_dropWhileD[THEN subsetI]) 
  also have "\<dots> \<subseteq> set t" by (auto dest: set_dropWhileD)
  finally show ?thesis .
qed

lemma dropWhile_prefix_hd:
  assumes "u = dropWhile P t" shows "dropWhile P (rev (dropWhile P (rev u))) = rev (dropWhile P (rev u))"
proof (cases "rev (dropWhile P (rev u))")
  case Nil
  show ?thesis unfolding Nil by simp
next
  case (Cons x xs)
  obtain r where r: "u = rev (dropWhile P (rev u)) @ r" using rev_dropWhile_rev_prefix by blast
  then have "u = x # (xs @ r)" using Cons by simp
  then have "dropWhile P t \<noteq> [] \<and> hd (dropWhile P t) = x" using assms by simp
  then have "\<not> P x" using hd_dropWhile by blast
  then show ?thesis using Cons by simp
qed

lemma trim_trim: "trim (trim t) = trim t"
proof -
  let ?u = "dropWhile is_white_space t"
  let ?v = "rev (dropWhile is_white_space (rev ?u))"
  have 1: "dropWhile is_white_space ?v = ?v" by (rule dropWhile_prefix_hd) simp
  have "trim (trim t) = rev (dropWhile is_white_space (rev (dropWhile is_white_space ?v)))"
    by (simp add: trim_def)
  also have "\<dots> = rev (dropWhile is_white_space (rev ?v))" using 1 by simp
  also have "\<dots> = ?v" by (simp add: dropWhile_idem)
  finally show ?thesis by (simp add: trim_def)
qed

lemma plain_pipeline:
  "\<forall>c\<in>set (strip_cr (strip_bidi (normalize_spaces (strip_invisible t)))). plain_char c"
  by (auto simp: strip_cr_def strip_bidi_def normalize_spaces_def strip_invisible_def plain_char_def
        special_space_def invisible_mark_def split: if_splits)

lemma plain_cleanText: "\<forall>c\<in>set (cleanText t). plain_char c"
proof (cases "t = []")
  case True
  then show ?thesis by (simp add: cleanText_def)
next
  case False
  have "set (cleanText t) \<subseteq> set (strip_cr (strip_bidi (normalize_spaces (strip_invisible t))))"
    using False set_trim set_collapse_spaces by (fastforce simp: cleanText_def)
  then show ?thesis using plain_pipeline by blast
qed

lemma plain_steps_fix:
  assumes "\<forall>c\<in>set t. plain_char c"
  shows "strip_cr (strip_bidi (normalize_spaces (strip_invisible t))) = t"
proof -
  have 1: "strip_invisible t = t"
    using assms by (simp add: strip_invisible_def plain_char_def)
  have 2: "normalize_spaces t = t"
    using assms by (simp add: normalize_spaces_def plain_char_def map_idI)
  have 3: "strip_bidi t = t"
    using assms by (simp add: strip_bidi_def plain_char_def)
  have 4: "strip_cr t = t"
    using assms by (simp add: strip_cr_def plain_char_def)
  show ?thesis by (simp add: 1 2 3 4)
qed

lemma cleanText_fix:
  assumes "\<forall>c\<in>set t. plain_char c" and "no_double_space t" and "trim t = t"
  shows "cleanText t = t"
  using assms by (simp add: cleanText_def plain_steps_fix collapse_spaces_fix)

lemma no_double_space_cleanText: "no_double_space (cleanText t)"
  by (simp add: cleanText_def no_double_space_trim no_double_space_collapse)

lemma trim_cleanText: "trim (cleanText t) = cleanText t"
proof (cases "t = []")
  case True
  then show ?thesis by (simp add: cleanText_def trim_def)
next
  case False
  then show ?thesis by (simp only: cleanText_def if_False trim_trim)
qed

text \<open>
  Claim C9. The Text Normalizer is idempotent: normalizing an already normalized line
  returns it unchanged. It has no error path: the empty string and \<^verbatim>\<open>undefined\<close> both give
  the empty string.
\<close>

theorem cleanText_idempotent_total:
  "cleanText (cleanText line) = cleanText line \<and> cleanText [] = [] \<and> cleanText_js None = []"
proof -
  have "cleanText (cleanText line) = cleanText line"
    by (rule cleanText_fix) (simp_all add: plain_cleanText no_double_space_cleanText trim_cleanText)
  then show ?thesis by (simp add: cleanText_def cleanText_js_def)
qed

section \<open>Properties of the DateTime Resolver\<close>

lemma parseDateTime_three_fields:
  assumes "map parseInt (split_on date_separator (cleanText dateStr)) = [first, second, year0]"
  shows "ymd_args (parseDateTime dateStr timeStr fmt) =
           Some (if num_lt year0 100
                 then num_add year0 (if num_lt year0 50 then 2000 else 1900) else year0,
                 num_add (if num_gt first 12 then second else first) (- 1),
                 if num_gt first 12 then first else second)"
  using assms
  by (auto simp: parseDateTime_def Let_def split: option.splits prod.splits)

text \<open>
  Claim C7. For a date token of three integer fields \<open>a\<close>, \<open>b\<close>, \<open>y\<close> the resolver expands a
  two-digit year to 19xx when it is at least 50 and to 20xx otherwise, and reads the day
  and the month as follows: if the first field exceeds 12 it is the day; else if the
  second exceeds 12 the second is the day; else the first field is the month. The
  constructor receives the month index, one less than the month.
\<close>

theorem parseDateTime_date_fields:
  assumes "map parseInt (split_on date_separator (cleanText dateStr)) = [Some a, Some b, Some y]"
  shows "ymd_args (parseDateTime dateStr timeStr fmt) =
           Some (Some (if y < 100 then (if 50 \<le> y then 1900 + y else 2000 + y) else y),
                 Some ((if 12 < a then b else if 12 < b then a else a) - 1),
                 Some (if 12 < a then a else if 12 < b then b else b))"
  using parseDateTime_three_fields[OF assms, of timeStr fmt]
  by (simp add: num_lt_def num_gt_def num_add_def)

theorem parseDateTime_date_fields_witness:
  "ymd_args (parseDateTime (js ''25/12/99'') (js ''10:15 PM'') Ios) =
     Some (Some 1999, Some 11, Some 25)"
proof -
  have h: "map parseInt (split_on date_separator (cleanText (js ''25/12/99''))) = [Some 25, Some 12, Some 99]"
    by code_simp
  show ?thesis
    using parseDateTime_date_fields[OF h, of "js ''10:15 PM''" Ios] by simp
qed

text \<open>
  Claim C3, as amended. A date token that does not split into exactly three fields makes
  the resolver return the current instant. When the date token has three integer fields
  and the time token does not match \<^verbatim>\<open>H:MM[:SS]\<close> with an optional AM/PM, the resolver returns
  the date alone, \<^verbatim>\<open>new Date(year, month - 1, day)\<close> (local midnight of the parsed date), not
  the current instant. The resolver is a total function: it does not fail.
\<close>

theorem parseDateTime_fallbacks:
  "(length (split_on date_separator (cleanText dateStr)) \<noteq> 3
      \<longrightarrow> parseDateTime dateStr timeStr fmt = DateNow)
   \<and> (map parseInt (split_on date_separator (cleanText dateStr)) = [Some a, Some b, Some y]
        \<and> search timeRe (cleanText timeStr) = None
      \<longrightarrow> parseDateTime dateStr timeStr fmt =
            DateYMD (Some (if y < 100 then (if 50 \<le> y then 1900 + y else 2000 + y) else y))
                    (Some ((if 12 < a then b else a) - 1))
                    (Some (if 12 < a then a else b)))"
proof (intro conjI impI)
  assume "length (split_on date_separator (cleanText dateStr)) \<noteq> 3"
  then have "length (map parseInt (split_on date_separator (cleanText dateStr))) \<noteq> 3" by simp
  then show "parseDateTime dateStr timeStr fmt = DateNow"
    by (auto simp: parseDateTime_def Let_def split: list.splits)
next
  assume "map parseInt (split_on date_separator (cleanText dateStr)) = [Some a, Some b, Some y]
        \<and> search timeRe (cleanText timeStr) = None"
  then show "parseDateTime dateStr timeStr fmt =
            DateYMD (Some (if y < 100 then (if 50 \<le> y then 1900 + y else 2000 + y) else y))
                    (Some ((if 12 < a then b else a) - 1))
                    (Some (if 12 < a then a else b))"
    by (auto simp: parseDateTime_def Let_def num_lt_def num_gt_def num_add_def)
qed

theorem parseDateTime_fallbacks_witness:
  "parseDateTime (js ''1-2-24'') (js ''10:00'') Ios = DateNow
   \<and> parseDateTime (js ''13/2/24'') (js ''half past ten'') Ios = DateYMD (Some 2024) (Some 1) (Some 13)"
proof -
  have h1: "length (split_on date_separator (cleanText (js ''1-2-24''))) \<noteq> 3"
    by code_simp
  have h2: "map parseInt (split_on date_separator (cleanText (js ''13/2/24''))) = [Some 13, Some 2, Some 24]
        \<and> search timeRe (cleanText (js ''half past ten'')) = None"
    by code_simp
  have 1: "parseDateTime (js ''1-2-24'') (js ''10:00'') Ios = DateNow"
    using parseDateTime_fallbacks[of "js ''1-2-24''" "js ''10:00''" Ios] h1 by blast
  have 2: "parseDateTime (js ''13/2/24'') (js ''half past ten'') Ios = DateYMD (Some 2024) (Some 1) (Some 13)"
    using parseDateTime_fallbacks[of "js ''13/2/24''" "js ''half past ten''" Ios 13 2 24] h2 by simp
  show ?thesis using 1 2 by simp
qed

text \<open>
  The claim as first stated has the current instant returned for a malformed time token
  as well; at the date \<^verbatim>\<open>1/2/24\<close> and the time \<^verbatim>\<open>noon\<close> the resolver returns 2 January 2024
  instead.
\<close>

theorem parseDateTime_malformed_time_counterexample:
  "parseDateTime (js ''1/2/24'') (js ''noon'') Ios = DateYMD (Some 2024) (Some 0) (Some 2)
   \<and> parseDateTime (js ''1/2/24'') (js ''noon'') Ios \<noteq> DateNow"
  by code_simp

section \<open>Properties of the Format Detector\<close>

lemma detect_loop_first_match:
  "detect_loop ls = first_match_dialect (filter (\<lambda>l. l \<noteq> []) (map cleanText ls))"
  by (induction ls) (auto simp: first_match_dialect_def header_line_def Let_def)

text \<open>
  Claim C6, as amended. The Format Detector examines the non-empty normalized lines among
  the first 20 raw lines of the input (blank lines count towards the 20). On each such line
  it tests the bracket-header pattern before the dash-header pattern, and sub-classifies a
  bracket match by the presence of a seconds field; the first matching line decides the
  dialect, and without a matching line in the window the dialect is bracketed with seconds.
\<close>

theorem detectFormat_first_match:
  "detectFormat content =
     first_match_dialect
       (filter (\<lambda>l. l \<noteq> []) (map cleanText (take 20 (split_on newline (crlf_to_lf content)))))"
  by (simp add: detectFormat_def detect_loop_first_match)

text \<open>
  The claim as first stated has the window hold the first 20 non-empty lines. For an input
  of 20 empty lines followed by a dash-delimited header, that window contains the header
  and decides \<open>AndroidDash\<close>; the code never reads line 21 and returns the default.
\<close>

theorem detectFormat_window_counterexample:
  "detectFormat (replicate 20 0x0a @ js ''1/2/2024, 10:00 - Alice: hi'') = Ios
   \<and> detectFormat_spec (replicate 20 0x0a @ js ''1/2/2024, 10:00 - Alice: hi'') = AndroidDash"
  by code_simp

section \<open>Properties of the matcher\<close>

text \<open>
  A match extends the capture groups it starts from, and binds every group that all ways
  through the pattern go through. So the groups that the parser reads from a match are
  bound, for each of its patterns.
\<close>

lemma matches_Rep_cases:
  assumes "x \<in> set (matches (Rep m n r) (s, c))" and "n \<noteq> Some 0"
  shows "(\<exists>y. y \<in> set (matches r (s, c)) \<and> length (fst y) < length s
              \<and> x \<in> set (matches (Rep (m - 1) (map_option (\<lambda>k. k - 1) n) r) y))
         \<or> (m = 0 \<and> x = (s, c))"
proof -
  have "x \<in> set (concat (map (\<lambda>st'. matches (Rep (m - 1) (map_option (\<lambda>k. k - 1) n) r) st')
                       (filter (\<lambda>st'. length (fst st') < length s) (matches r (s, c))))
           @ (if m = 0 then [(s, c)] else []))"
    using assms by (simp only: matches.simps(6)[of m n r s c] if_False)
  then show ?thesis
    by (cases "m = 0") auto
qed

lemma matches_caps_grow:
  "x \<in> set (matches r st) \<Longrightarrow> fst ` set (snd st) \<subseteq> fst ` set (snd x)"
proof (induction r st arbitrary: x rule: matches.induct)
  case (1 st)
  then show ?case by simp
next
  case (2 k s c)
  then show ?case by (auto split: list.splits if_splits)
next
  case (3 a b st)
  then obtain y where y: "y \<in> set (matches a st)" and x: "x \<in> set (matches b y)"
    by auto
  have "fst ` set (snd st) \<subseteq> fst ` set (snd y)" using 3(1)[OF y] .
  moreover have "fst ` set (snd y) \<subseteq> fst ` set (snd x)" using 3(2)[OF y x] .
  ultimately show ?case by blast
next
  case (4 a b st)
  from 4(3) have "x \<in> set (matches a st) \<or> x \<in> set (matches b st)" by simp
  then show ?case using 4(1) 4(2) by blast
next
  case (5 i r s c)
  then obtain y where y: "y \<in> set (matches r (s, c))"
    and x: "x = (fst y, (i, take (length s - length (fst y)) s) # snd y)"
    by (auto simp: case_prod_beta)
  have "fst ` set (snd (s, c)) \<subseteq> fst ` set (snd y)" using 5(1)[OF y] .
  then show ?case using x by auto
next
  case (6 m n r s c)
  show ?case
  proof (cases "n = Some 0")
    case True
    with 6(3) show ?thesis by (simp add: matches.simps(6))
  next
    case False
    from matches_Rep_cases[OF 6(3) False] consider
      (iter) y where "y \<in> set (matches r (s, c))" "length (fst y) < length s"
         "x \<in> set (matches (Rep (m - 1) (map_option (\<lambda>k. k - 1) n) r) y)"
      | (stop) "x = (s, c)"
      by blast
    then show ?thesis
    proof cases
      case iter
      have a: "fst ` set (snd (s, c)) \<subseteq> fst ` set (snd y)" using 6(1)[OF False iter(1)] .
      have "y \<in> set (filter (\<lambda>st'. length (fst st') < length s) (matches r (s, c)))"
        using iter by simp
      from 6(2)[OF False this iter(3)] a show ?thesis by blast
    next
      case stop
      then show ?thesis by simp
    qed
  qed
qed

lemma matches_binds:
  "binds r i \<Longrightarrow> x \<in> set (matches r st) \<Longrightarrow> i \<in> fst ` set (snd x)"
proof (induction r st arbitrary: x rule: matches.induct)
  case (1 st)
  then show ?case by simp
next
  case (2 k s c)
  then show ?case by simp
next
  case (3 a b st)
  from 3(4) obtain y where y: "y \<in> set (matches a st)" and x: "x \<in> set (matches b y)"
    by auto
  show ?case
  proof (cases "binds b i")
    case True
    then show ?thesis using 3(2)[OF y True x] by simp
  next
    case False
    with 3(3) have "binds a i" by simp
    then have "i \<in> fst ` set (snd y)" using 3(1) y by blast
    then show ?thesis using matches_caps_grow[OF x] by blast
  qed
next
  case (4 a b st)
  from 4(4) have "x \<in> set (matches a st) \<or> x \<in> set (matches b st)" by simp
  moreover from 4(3) have "binds a i" and "binds b i" by simp_all
  ultimately show ?case using 4(1) 4(2) by blast
next
  case (5 j r s c)
  from 5(3) obtain y where y: "y \<in> set (matches r (s, c))"
    and x: "x = (fst y, (j, take (length s - length (fst y)) s) # snd y)"
    by (auto simp: case_prod_beta)
  show ?case
  proof (cases "i = j")
    case True
    then show ?thesis using x by simp
  next
    case False
    with 5(2) have "binds r i" by simp
    then have "i \<in> fst ` set (snd y)" using 5(1) y by blast
    then show ?thesis using x by simp
  qed
next
  case (6 m n r s c)
  from 6(3) have m: "0 < m" and False: "n \<noteq> Some 0" and b: "binds r i" by simp_all
  from matches_Rep_cases[OF 6(4) False] m obtain y where y: "y \<in> set (matches r (s, c))"
    "length (fst y) < length s"
    "x \<in> set (matches (Rep (m - 1) (map_option (\<lambda>k. k - 1) n) r) y)"
    by auto
  have "i \<in> fst ` set (snd y)" using 6(1)[OF False b y(1)] .
  then show ?case using matches_caps_grow[OF y(3)] by blast
qed

lemma match_here_group:
  assumes "match_here r s = Some (rest, m)" and "binds r i"
  shows "group m i = Some (group_str m i)"
proof -
  from assms(1) have "(rest, m) \<in> set (matches r (s, []))"
    by (auto simp: match_here_def split: list.splits)
  then have "i \<in> fst ` set m"
    using matches_binds[OF assms(2)] by fastforce
  then have "map_of m i \<noteq> None"
    by (simp add: map_of_eq_None_iff)
  then show ?thesis
    by (auto simp: group_def group_str_def)
qed

lemma search_group:
  assumes "search r s = Some (pre, rest, m)" and "binds r i"
  shows "group m i = Some (group_str m i)"
  using assms
proof (induction s arbitrary: pre)
  case Nil
  then show ?case by (auto dest: match_here_group)
next
  case (Cons x xs)
  show ?case
  proof (cases "match_here r (x # xs)")
    case None
    with Cons.prems(1) obtain pre' where "search r xs = Some (pre', rest, m)"
      by auto
    then show ?thesis using Cons.IH Cons.prems(2) by blast
  next
    case (Some a)
    with Cons.prems(1) have "match_here r (x # xs) = Some (rest, m)"
      by (auto split: prod.splits)
    then show ?thesis using Cons.prems(2) by (rule match_here_group)
  qed
qed

lemma header_groups_bound:
  "list_all (binds bracketPattern) [1, 2, 3, 4] \<and> list_all (binds dashPattern) [1, 2, 3, 4]
   \<and> list_all (binds sysBracketPattern) [1, 2, 3] \<and> list_all (binds sysDashPattern) [1, 2, 3]"
  by code_simp

lemma messagePattern_groups_bound:
  "list_all (binds (messagePattern exportFormat)) [1, 2, 3, 4]
   \<and> list_all (binds (sysPattern exportFormat)) [1, 2, 3]"
  using header_groups_bound by (simp add: messagePattern_def sysPattern_def)

lemma classifier_groups_bound:
  "binds attachRe 1 \<and> list_all (binds pdfWithAttachRe) [1, 2, 3]
   \<and> list_all (binds docRe) [1, 2, 3, 4] \<and> binds callDetailRe 1
   \<and> list_all (binds timeRe) [1, 2]"
  by code_simp

section \<open>Properties of the Media Resolver and the Classifier\<close>

text \<open>
  The loops of \<^verbatim>\<open>findMediaFile\<close> and the lookup in the table are first matches in the order
  of the table.
\<close>

lemma find_value_first_payload: "find_value P tbl = first_payload P tbl"
  by (induction tbl) (auto simp: first_payload_def)

lemma map_of_first_payload: "map_of tbl name = first_payload (\<lambda>key. key = name) tbl"
  by (induction tbl) (auto simp: first_payload_def)

lemma first_success_Cons:
  "first_success (x # xs) = (case x of Some v \<Rightarrow> Some v | None \<Rightarrow> first_success xs)"
  by (cases x) simp_all

lemma first_payload_empty_table: "first_payload P [] = None"
  by (simp add: first_payload_def)

lemma resolver_cascade_empty_table: "resolver_cascade_either_way h name [] = None"
  by (simp add: resolver_cascade_either_way_def exact_match_def case_insensitive_match_def
      core_token_match_either_way_def numeric_run_match_def first_payload_empty_table
      split: option.splits)

lemma findMediaFile_is_cascade:
  "findMediaFile h name tbl =
     (if name = [] then None else resolver_cascade_either_way h name tbl)"
proof (cases "name = [] \<or> tbl = []")
  case True
  then show ?thesis
    by (auto simp: findMediaFile_def resolver_cascade_empty_table)
next
  case False
  then show ?thesis
    by (simp add: findMediaFile_def resolver_cascade_either_way_def first_success_Cons
        exact_match_def case_insensitive_match_def core_token_match_either_way_def
        numeric_run_match_def core_token_def digit_run_def
        find_value_first_payload map_of_first_payload
        split: option.splits)
qed

text \<open>
  Where no key of the table lies inside the core token without containing it, the match
  either way is the match of the specification, and the resolver is the cascade of the
  specification.
\<close>

lemma first_payload_cong:
  assumes "\<And>key. key \<in> fst ` set tbl \<Longrightarrow> P key = Q key"
  shows "first_payload P tbl = first_payload Q tbl"
  using assms by (induction tbl) (auto simp: first_payload_def)

lemma findMediaFile_is_spec_cascade:
  assumes "name \<noteq> []"
    and "\<And>token key. core_token name = Some token \<Longrightarrow> key \<in> fst ` set tbl
           \<Longrightarrow> js_includes token key \<Longrightarrow> js_includes key token"
  shows "findMediaFile h name tbl = resolver_cascade h name tbl"
proof -
  have "core_token_match_either_way name tbl = core_token_match name tbl"
  proof (cases "core_token name")
    case None
    then show ?thesis
      by (simp add: core_token_match_either_way_def core_token_match_def)
  next
    case (Some token)
    have "first_payload (\<lambda>key. js_includes key token \<or> js_includes token key) tbl =
          first_payload (\<lambda>key. js_includes key token) tbl"
      by (rule first_payload_cong) (use assms(2) Some in blast)
    then show ?thesis
      by (simp add: core_token_match_either_way_def core_token_match_def Some)
  qed
  then show ?thesis
    using assms(1)
    by (simp add: findMediaFile_is_cascade resolver_cascade_either_way_def resolver_cascade_def)
qed

text \<open>
  Claim C5, as amended. For every file name and every lookup table, on every host: the
  Media Resolver answers not found for the empty file name, and otherwise it is the cascade
  of four strategies, tried in this order, of which the first that succeeds gives the
  payload of the first matching entry of the table: (1) exact key match; (2)
  case-insensitive key match; (3) when the file name has an id of five or more digits
  followed by a PHOTO, VIDEO, AUDIO, DOCUMENT or FILE tag, a match of that core token
  against the keys either way, the key contains the token or the token contains the key;
  (4) when the file name has a run of eight or more digits, a key that contains that run.
  When the resolver finds nothing for the file name of an attachment marker, the classifier
  still gives the message a media descriptor, with no payload and \<^verbatim>\<open>hasData\<close> false, and the
  cleanup filter keeps the message; no error arises.
\<close>

theorem findMediaFile_cascade:
  "findMediaFile h name tbl =
     (if name = [] then None
      else first_success
             [first_payload (\<lambda>key. key = name) tbl,
              first_payload (\<lambda>key. toLowerCase h key = toLowerCase h name) tbl,
              (case core_token name of
                 None \<Rightarrow> None
               | Some token \<Rightarrow>
                   first_payload (\<lambda>key. js_includes key token \<or> js_includes token key) tbl),
              (case digit_run name of
                 None \<Rightarrow> None
               | Some run \<Rightarrow> first_payload (\<lambda>key. js_includes key run) tbl)])
   \<and> (search attachRe (rawText m) = Some (pre, rest, am)
        \<and> findMediaFile h (attachment_filename (group_str am 1)) tbl = None
      \<longrightarrow> map_option data (media (finalizeMessage h m tbl)) = Some None
          \<and> map_option hasData (media (finalizeMessage h m tbl)) = Some False
          \<and> keep_message (finalizeMessage h m tbl))"
proof (intro conjI impI)
  show "findMediaFile h name tbl =
     (if name = [] then None
      else first_success
             [first_payload (\<lambda>key. key = name) tbl,
              first_payload (\<lambda>key. toLowerCase h key = toLowerCase h name) tbl,
              (case core_token name of
                 None \<Rightarrow> None
               | Some token \<Rightarrow>
                   first_payload (\<lambda>key. js_includes key token \<or> js_includes token key) tbl),
              (case digit_run name of
                 None \<Rightarrow> None
               | Some run \<Rightarrow> first_payload (\<lambda>key. js_includes key run) tbl)])"
    by (simp add: findMediaFile_is_cascade resolver_cascade_either_way_def exact_match_def
        case_insensitive_match_def core_token_match_either_way_def numeric_run_match_def)
next
  assume a: "search attachRe (rawText m) = Some (pre, rest, am)
        \<and> findMediaFile h (attachment_filename (group_str am 1)) tbl = None"
  then have m: "media (finalizeMessage h m tbl) =
      Some \<lparr>filename = Some (attachment_filename (group_str am 1)), displayName = None,
            media_type = getMediaType h (toLowerCase h (last (split_on (\<lambda>c. c = 0x2e)
                            (attachment_filename (group_str am 1))))),
            extension = Some (toLowerCase h (last (split_on (\<lambda>c. c = 0x2e)
                            (attachment_filename (group_str am 1))))),
            data = None, hasData = False, pages = None\<rparr>"
    by (simp add: finalizeMessage_def Let_def truthy_def)
  show "map_option data (media (finalizeMessage h m tbl)) = Some None" by (simp add: m)
  show "map_option hasData (media (finalizeMessage h m tbl)) = Some False" by (simp add: m)
  show "keep_message (finalizeMessage h m tbl)" by (simp add: keep_message_def m)
qed

theorem findMediaFile_cascade_witness:
  "findMediaFile sample_host (js ''img-001.JPG'')
       [(js ''IMG-001.jpg'', js ''data:image/jpeg;base64,AAAA'')] =
     Some (js ''data:image/jpeg;base64,AAAA'')
   \<and> map_option hasData
        (media (finalizeMessage sample_host
                  (new_message 0 DateNow (js ''Alice'') (js ''<attached: IMG-404.jpg>''))
                  [(js ''IMG-001.jpg'', js ''data:image/jpeg;base64,AAAA'')])) = Some False
   \<and> keep_message (finalizeMessage sample_host
                  (new_message 0 DateNow (js ''Alice'') (js ''<attached: IMG-404.jpg>''))
                  [(js ''IMG-001.jpg'', js ''data:image/jpeg;base64,AAAA'')])"
proof -
  let ?tbl = "[(js ''IMG-001.jpg'', js ''data:image/jpeg;base64,AAAA'')]"
  let ?m = "new_message 0 DateNow (js ''Alice'') (js ''<attached: IMG-404.jpg>'')"
  have c1: "(if js ''img-001.JPG'' = [] then None
      else first_success
             [first_payload (\<lambda>key. key = js ''img-001.JPG'') ?tbl,
              first_payload (\<lambda>key. toLowerCase sample_host key
                                   = toLowerCase sample_host (js ''img-001.JPG'')) ?tbl,
              (case core_token (js ''img-001.JPG'') of
                 None \<Rightarrow> None
               | Some token \<Rightarrow>
                   first_payload (\<lambda>key. js_includes key token \<or> js_includes token key) ?tbl),
              (case digit_run (js ''img-001.JPG'') of
                 None \<Rightarrow> None
               | Some run \<Rightarrow> first_payload (\<lambda>key. js_includes key run) ?tbl)])
       = Some (js ''data:image/jpeg;base64,AAAA'')"
    by code_simp
  have h2: "search attachRe (rawText ?m) = Some ([], [], [(1, js ''IMG-404.jpg'')])
        \<and> findMediaFile sample_host (attachment_filename (group_str [(1, js ''IMG-404.jpg'')] 1)) ?tbl
            = None"
    by code_simp
  have 1: "findMediaFile sample_host (js ''img-001.JPG'') ?tbl
             = Some (js ''data:image/jpeg;base64,AAAA'')"
    using findMediaFile_cascade[of sample_host "js ''img-001.JPG''" ?tbl] c1 by simp
  have 2: "map_option hasData (media (finalizeMessage sample_host ?m ?tbl)) = Some False
           \<and> keep_message (finalizeMessage sample_host ?m ?tbl)"
    using findMediaFile_cascade[of sample_host _ ?tbl ?m "[]" "[]" "[(1, js ''IMG-404.jpg'')]"] h2
    by blast
  show ?thesis using 1 2 by simp
qed

text \<open>
  The claim as first stated has the core token matched against the keys as the run of
  digits is: the key contains it. With the file name \<^verbatim>\<open>00000012-PHOTO-2024-01-02.jpg\<close> and a
  table whose only key is \<^verbatim>\<open>2.jpg\<close>, no strategy of the specification succeeds, while the
  resolver gives the payload of that key, which the core token contains.
\<close>

theorem findMediaFile_either_way_counterexample:
  "resolver_cascade sample_host photo_name short_key_table = None
   \<and> findMediaFile sample_host photo_name short_key_table
       = Some (js ''data:image/jpeg;base64,WRONG'')
   \<and> core_token photo_name = Some photo_name
   \<and> js_includes photo_name (js ''2.jpg'')"
  by code_simp

text \<open>
  A message whose raw text has an attachment marker is classified \<^verbatim>\<open>'media'\<close>, whatever else
  the text holds; its descriptor has neither a display name nor a page count.
\<close>

lemma attachment_marker_is_media:
  assumes "search attachRe (rawText m) \<noteq> None"
  shows "msg_type (finalizeMessage h m tbl) = MediaMsg
         \<and> map_option displayName (media (finalizeMessage h m tbl)) = Some None
         \<and> map_option pages (media (finalizeMessage h m tbl)) = Some None"
  using assms by (auto simp: finalizeMessage_def Let_def split: option.splits prod.splits)

text \<open>
  Claim C2, at the input on which the code departs from it. The raw text
  \<^verbatim>\<open>report.pdf * 3 pages <attached: 00000012-report.pdf>\<close> (the star standing for the bullet)
  matches the pattern of a PDF document with an attachment marker, yet the classifier makes
  it a \<^verbatim>\<open>'media'\<close> message without page count and display name: the test for the marker alone
  comes first in \<^verbatim>\<open>finalizeMessage\<close> and returns, so the branch that would assign
  \<^verbatim>\<open>'document'\<close> is never reached.
\<close>

theorem pdf_attachment_classified_media:
  "search pdfWithAttachRe pdf_attachment_text \<noteq> None
   \<and> msg_type (finalizeMessage h (new_message 0 DateNow (js ''Alice'') pdf_attachment_text) []) = MediaMsg
   \<and> map_option pages
        (media (finalizeMessage h (new_message 0 DateNow (js ''Alice'') pdf_attachment_text) [])) = Some None
   \<and> map_option displayName
        (media (finalizeMessage h (new_message 0 DateNow (js ''Alice'') pdf_attachment_text) [])) = Some None
   \<and> map_option filename
        (media (finalizeMessage h (new_message 0 DateNow (js ''Alice'') pdf_attachment_text) [])) =
       Some (Some (js ''00000012-report.pdf''))"
  by code_simp

section \<open>Properties of the Boundary Scanner\<close>











text \<open>
  The example of the specification, for every reading of the clock, every date format and
  lower-casing of the host and every lookup table.
\<close>

lemma quote_merge_example:
  "cd_messages (parse h quote_merge_input mediaFiles) =
     [\<lparr>msg_id = 0,
       timestamp = DateYMDHMS (Some 2024) (Some 0) (Some 2) (Some 10) (Some 0) (Some 0),
       sender = js ''Alice'', rawText = [], msg_text = [], msg_type = TextMsg, media = None,
       isSystem = False, hasQuote = True,
       quotedMessage =
         Some \<lparr>q_timestamp = DateYMDHMS (Some 2024) (Some 0) (Some 2) (Some 9) (Some 59) (Some 0),
               q_sender = js ''Bob'', q_text = js ''Hi''\<rparr>,
       isEdited = False\<rparr>]"
  by code_simp

lemma scan_line_unrecognized:
  assumes "unrecognized fmt raw" and "currentMessage st = None"
  shows "scan_line h fmt tbl raw la st = st"
  using assms by (auto simp: scan_line_def unrecognized_def Let_def)

lemma scan_lines_unrecognized:
  assumes "list_all (unrecognized fmt) ls" and "currentMessage st = None"
  shows "scan_lines h fmt tbl ls st = st"
  using assms by (induction ls) (simp_all add: scan_line_unrecognized)

text \<open>
  Claim C8, as amended. When no line of the input opens a message (every line is empty once
  normalized or matches neither grammar of the detected dialect), \<^verbatim>\<open>parse\<close> returns a
  \<^verbatim>\<open>ChatData\<close> with empty message and participant sequences and the placeholder date range
  \<^verbatim>\<open>-\<close>. This is so for a non-empty input as it is for the completely empty input: no failure
  is propagated to the caller.
\<close>

theorem parse_nothing_recognized:
  assumes "list_all (unrecognized (detectFormat content)) (rawLines content)"
  shows "parse h content mediaFiles = empty_chat_data (detectFormat content)"
proof -
  have "scanned h content mediaFiles = initial_state"
    unfolding scanned_def using assms
    by (rule scan_lines_unrecognized) (simp add: initial_state_def)
  then show ?thesis
    by (simp add: parse_def push_current_def initial_state_def cleanupMessages_def
        calculateStats_def formatDateRange_def empty_chat_data_def)
qed

theorem parse_nothing_recognized_witness:
  "parse sample_host [] [] = empty_chat_data Ios
   \<and> parse sample_host (js ''not a chat export'') [] = empty_chat_data Ios"
proof -
  have h1: "list_all (unrecognized (detectFormat [])) (rawLines [])"
    by code_simp
  have h2: "list_all (unrecognized (detectFormat (js ''not a chat export'')))
              (rawLines (js ''not a chat export''))"
    by code_simp
  have f1: "detectFormat [] = Ios" by code_simp
  have f2: "detectFormat (js ''not a chat export'') = Ios" by code_simp
  show ?thesis
    using parse_nothing_recognized[OF h1, of sample_host "[]"]
      parse_nothing_recognized[OF h2, of sample_host "[]"] f1 f2 by simp
qed

text \<open>
  The claim as first stated has a non-empty input without a recognized line end in a
  reportable failure. The input \<^verbatim>\<open>hello\<close> gives the very result of the empty input.
\<close>

theorem parse_unrecognized_counterexample:
  "parse sample_host (js ''hello'') [] = parse sample_host [] []
   \<and> cd_messages (parse sample_host (js ''hello'') []) = []"
  by code_simp

lemma finalizeMessage_id: "msg_id (finalizeMessage h m tbl) = msg_id m"
  by (simp add: finalizeMessage_def Let_def split: option.splits prod.splits)

lemma push_current_ids:
  assumes "ids_dense st"
  shows "map msg_id (push_current h tbl st) = [0..<length (push_current h tbl st)]"
  using assms
  by (auto simp: ids_dense_def push_current_def finalizeMessage_id split: option.splits)

lemma scan_line_ids:
  assumes "ids_dense st"
  shows "ids_dense (scan_line h fmt tbl raw la st)"
proof -
  have p: "map msg_id (push_current h tbl st) = [0..<length (push_current h tbl st)]"
    using assms by (rule push_current_ids)
  show ?thesis
    using assms p
    by (auto simp: scan_line_def Let_def ids_dense_def new_message_def
        split: option.splits prod.splits)
qed

lemma scan_lines_ids:
  assumes "ids_dense st"
  shows "ids_dense (scan_lines h fmt tbl ls st)"
  using assms by (induction ls arbitrary: st) (simp_all add: scan_line_ids)

lemma scanned_ids: "ids_dense (scanned h content tbl)"
  unfolding scanned_def
  by (rule scan_lines_ids) (simp add: ids_dense_def initial_state_def)

lemma strict_sorted_filter_map:
  "sorted_wrt (<) (map f xs) \<Longrightarrow> sorted_wrt (<) (map f (filter P xs))"
  by (simp add: sorted_wrt_map sorted_wrt_filter)

lemma strict_sorted_index_le:
  fixes xs :: "nat list"
  assumes "sorted_wrt (<) xs" and "i < length xs"
  shows "i \<le> xs ! i"
  using assms(2)
proof (induction i)
  case 0
  then show ?case by simp
next
  case (Suc i)
  then have "xs ! i < xs ! Suc i"
    using assms(1) by (simp add: sorted_wrt_nth_less)
  with Suc show ?case by simp
qed

lemma strict_sorted_above_index:
  fixes xs :: "nat list"
  assumes "sorted_wrt (<) xs"
  shows "list_all2 (\<le>) [0..<length xs] xs"
  using assms by (simp add: list_all2_conv_all_nth strict_sorted_index_le)

text \<open>
  Claim C1, as amended. For every input, the messages closed by the scanner carry the dense
  ids 0, 1, ..., N-1 in order, before the cleanup filter. The parse result is what the filter
  keeps of them, with the ids they were given: in the result the ids are strictly
  increasing, \<^verbatim>\<open>messages[i].id < messages[i+1].id\<close>, and \<^verbatim>\<open>messages[i].id >= i\<close>; they are
  position-matching only as long as the filter discards nothing before them.
\<close>

theorem parse_ids_increasing:
  "map msg_id (push_current h mediaFiles (scanned h content mediaFiles)) =
     [0..<length (push_current h mediaFiles (scanned h content mediaFiles))]
   \<and> cd_messages (parse h content mediaFiles) =
       filter keep_message (push_current h mediaFiles (scanned h content mediaFiles))
   \<and> sorted_wrt (<) (map msg_id (cd_messages (parse h content mediaFiles)))
   \<and> list_all2 (\<le>) [0..<length (cd_messages (parse h content mediaFiles))]
        (map msg_id (cd_messages (parse h content mediaFiles)))"
proof -
  let ?all = "push_current h mediaFiles (scanned h content mediaFiles)"
  have dense: "map msg_id ?all = [0..<length ?all]"
    using scanned_ids by (rule push_current_ids)
  have res: "cd_messages (parse h content mediaFiles) = filter keep_message ?all"
    by (simp add: parse_def cleanupMessages_def Let_def)
  have "sorted_wrt (<) (map msg_id ?all)"
    by (simp add: dense)
  then have inc: "sorted_wrt (<) (map msg_id (filter keep_message ?all))"
    by (rule strict_sorted_filter_map)
  have "list_all2 (\<le>) [0..<length (map msg_id (filter keep_message ?all))]
          (map msg_id (filter keep_message ?all))"
    using inc by (rule strict_sorted_above_index)
  then show ?thesis using dense res inc by simp
qed

text \<open>
  The claim as first stated has \<^verbatim>\<open>messages[i].id == i\<close> after the cleanup filter too. When the
  filter drops the empty first message of Alice, the message of Bob is first in the result
  and still has id 1.
\<close>

theorem parse_ids_dense_counterexample:
  "map msg_id (cd_messages (parse sample_host dropped_first_input [])) = [1]
   \<and> map sender (cd_messages (parse sample_host dropped_first_input [])) = [js ''Bob'']"
  by code_simp

text \<open>
  Claim C10, at the input on which the code departs from it. Bob writes; then Alice replies
  with a quote, so that her header has no text and the next line is a header with an
  earlier time stamp. The scanner opens her message in its look-ahead branch (lines
  148-175), which, unlike the regular branch (lines 183-187), does not count the sender:
  the result has a message of Alice, and Alice is not among the participants.
\<close>

theorem lookahead_open_not_counted:
  "map sender (cd_messages (parse sample_host reply_after_message_input [])) =
     [js ''Bob'', js ''Alice'']
   \<and> cd_participants (parse sample_host reply_after_message_input []) = [(js ''Bob'', 1)]"
  by code_simp

text \<open>
  The other two parts of the claim, on the examples above: a message that the cleanup filter
  discards is counted for its sender, and the sender of a header merged as a quoted reply
  is not counted.
\<close>

lemma discarded_message_counted:
  "map sender (cd_messages (parse sample_host dropped_first_input [])) = [js ''Bob'']
   \<and> cd_participants (parse sample_host dropped_first_input []) =
       [(js ''Alice'', 1), (js ''Bob'', 1)]"
  by code_simp

lemma quoted_sender_not_counted:
  "cd_participants (parse sample_host quote_merge_input []) = [(js ''Alice'', 1)]"
  by code_simp

end
